theory Spec2Isabelle
  imports Main "HOL-Library.Word"
begin

unbundle bit_operations_syntax

section \<open>JavaScript values shared by the modules\<close>

text \<open>
  A JavaScript string is a sequence of UTF-16 code units. String literals of the
  source that are plain ASCII are written through \<open>js\<close>; literals with CJK
  characters are written as their code units.
\<close>

type_synonym jsstring = "16 word list"

definition js :: "string \<Rightarrow> jsstring" where
  "js s = map of_char s"

text \<open>A \<open>Uint8Array\<close> chunk travelling through a stream.\<close>

type_synonym chunk = "8 word list"

text \<open>
  An \<open>Error\<close> object as the handlers see it: \<open>instanceof OpenAI.APIError\<close>
  (with its \<open>status\<close>, undefined for a connection error), a \<open>TypeError\<close> raised
  by the engine, or any other error; every one carries \<open>message\<close> and \<open>stack\<close>.
\<close>

datatype error_kind = APIError "nat option" | TypeError | OtherError

record js_error =
  kind :: error_kind
  message :: jsstring
  stack :: jsstring

definition new_Error :: "jsstring \<Rightarrow> js_error" where
  "new_Error m = \<lparr>kind = OtherError, message = m, stack = []\<rparr>"

definition new_TypeError :: "jsstring \<Rightarrow> js_error" where
  "new_TypeError m = \<lparr>kind = TypeError, message = m, stack = []\<rparr>"

text \<open>
  \<open>Array.prototype.join\<close>, and the string a template literal prints for an
  unsigned short, which is what the \<open>status\<close> of a response is: its decimal
  digits.
\<close>

fun join :: "jsstring \<Rightarrow> jsstring list \<Rightarrow> jsstring" where
  "join sep [] = []"
| "join sep [x] = x"
| "join sep (x # y # zs) = x @ sep @ join sep (y # zs)"

fun to_digits :: "nat \<Rightarrow> nat list" where
  "to_digits n = (if n < 10 then [n] else to_digits (n div 10) @ [n mod 10])"

definition Number_toString :: "16 word \<Rightarrow> jsstring" where
  "Number_toString n = map (\<lambda>d. of_nat (48 + d)) (to_digits (unat n))"

text \<open>
  \<open>new TextEncoder().encode(s)\<close>: the UTF-8 bytes of the code points of \<open>s\<close>, a
  surrogate pair read as one code point and a lone surrogate as U+FFFD.
\<close>

definition is_high_surrogate :: "16 word \<Rightarrow> bool" where
  "is_high_surrogate u = (0xD800 \<le> unat u \<and> unat u \<le> 0xDBFF)"

definition is_low_surrogate :: "16 word \<Rightarrow> bool" where
  "is_low_surrogate u = (0xDC00 \<le> unat u \<and> unat u \<le> 0xDFFF)"

definition scalar_value :: "16 word \<Rightarrow> nat" where
  "scalar_value u = (if is_high_surrogate u \<or> is_low_surrogate u then 0xFFFD else unat u)"

fun code_points :: "jsstring \<Rightarrow> nat list" where
  "code_points [] = []"
| "code_points [u] = [scalar_value u]"
| "code_points (u # v # rest) =
     (if is_high_surrogate u \<and> is_low_surrogate v
      then (0x10000 + (unat u - 0xD800) * 0x400 + (unat v - 0xDC00)) # code_points rest
      else scalar_value u # code_points (v # rest))"

definition utf8_bytes :: "nat \<Rightarrow> chunk" where
  "utf8_bytes cp =
     (if cp < 0x80 then [of_nat cp]
      else if cp < 0x800 then [of_nat (0xC0 + cp div 0x40), of_nat (0x80 + cp mod 0x40)]
      else if cp < 0x10000 then
        [of_nat (0xE0 + cp div 0x1000), of_nat (0x80 + cp div 0x40 mod 0x40),
         of_nat (0x80 + cp mod 0x40)]
      else
        [of_nat (0xF0 + cp div 0x40000), of_nat (0x80 + cp div 0x1000 mod 0x40),
         of_nat (0x80 + cp div 0x40 mod 0x40), of_nat (0x80 + cp mod 0x40)])"

definition TextEncoder_encode :: "jsstring \<Rightarrow> chunk" where
  "TextEncoder_encode s = concat (map utf8_bytes (code_points s))"

text \<open>
  A parsed JSON value. Numbers stand for the parsed number; the code below only
  tests a value for truthiness, where zero is what matters.
\<close>

datatype json =
  JNull | JBool bool | JNumber int | JString jsstring
  | JArray "json list" | JObject "(jsstring \<times> json) list"

fun truthy :: "json \<Rightarrow> bool" where
  "truthy JNull = False"
| "truthy (JBool b) = b"
| "truthy (JNumber n) = (n \<noteq> 0)"
| "truthy (JString s) = (s \<noteq> [])"
| "truthy (JArray xs) = True"
| "truthy (JObject kvs) = True"

section \<open>Streams\<close>

text \<open>
  What successive \<open>await reader.read()\<close> calls on an upstream body settle to: a
  chunk, \<open>done\<close>, or a rejection. An upstream is the list of these results in the
  order they are produced; when the list is used up the next read never settles.
\<close>

datatype read_result = Chunk chunk | Done | ReadRejected js_error

text \<open>
  The stream handed to \<open>new Response\<close>: the chunks enqueued on it, in order, and
  how it ended. \<open>Waiting\<close> is a stream neither closed nor errored, its producer
  still awaiting a read.
\<close>

datatype stream_state = Closed | Errored | Waiting

datatype body = Text jsstring | Json json | Stream "chunk list" stream_state

record response =
  status :: nat
  headers :: "(jsstring \<times> jsstring) list"
  body :: body

text \<open>
  The loop of both branches of the chat route, on the controller's queue \<open>q\<close>:
  \<^verbatim>\<open>while (true) { const { done, value } = await reader.read();
                 if (done) break; controller.enqueue(value); }
  controller.close();\<close>
  A rejected read rejects \<open>start\<close>, which errors the stream.
\<close>

fun forward :: "read_result list \<Rightarrow> chunk list \<Rightarrow> chunk list \<times> stream_state" where
  "forward [] q = (q, Waiting)"
| "forward (Chunk v # rs) q = forward rs (q @ [v])"
| "forward (Done # rs) q = (q, Closed)"
| "forward (ReadRejected e # rs) q = (q, Errored)"

text \<open>
  The chunks an upstream produces before it ends, in production order, and the
  way it ends; stated without the loop, for comparison with it.
\<close>

fun produced :: "read_result list \<Rightarrow> chunk list" where
  "produced (Chunk v # rs) = v # produced rs"
| "produced _ = []"

fun ending :: "read_result list \<Rightarrow> stream_state" where
  "ending [] = Waiting"
| "ending (Chunk v # rs) = ending rs"
| "ending (Done # rs) = Closed"
| "ending (ReadRejected e # rs) = Errored"

section \<open>The chat route that chooses between a tool and a direct answer\<close>

subsection \<open>The cached tool list\<close>

text \<open>
  \<open>let cachedTools: any = null\<close> is module state; \<open>getTools\<close> takes it and returns
  the value it resolves to together with the new module state. \<open>fetched\<close> is what
  \<open>fetch('http://127.0.0.1:8000/api/tools')\<close> would settle to at the time of the
  call: a rejection, or a response with its \<open>ok\<close> flag and what \<open>response.json()\<close>
  settles to.
\<close>

record tools_response =
  tools_ok :: bool
  tools_json :: "js_error + json"

definition getTools_try :: "js_error + tools_response \<Rightarrow> js_error + json" where
  "getTools_try fetched =
     (case fetched of
        Inl e \<Rightarrow> Inl e
      | Inr r \<Rightarrow>
          if \<not> tools_ok r then Inl (new_Error (js ''Failed to fetch tools''))
          else tools_json r)"

definition getTools :: "js_error + tools_response \<Rightarrow> json \<Rightarrow> json \<times> json" where
  "getTools fetched cachedTools =
     (if truthy cachedTools then (cachedTools, cachedTools)
      else case getTools_try fetched of
             Inr v \<Rightarrow> (v, v)
           | Inl e \<Rightarrow> (JNull, cachedTools))"

subsection \<open>The route\<close>

record chat_message =
  content :: jsstring
  role :: jsstring

record tool_call =
  function_name :: jsstring
  function_arguments :: jsstring

record completion_message =
  message_content :: "jsstring option"
  tool_calls :: "tool_call list option"

record choice =
  choice_message :: "completion_message option"

record completion_request =
  cr_model :: jsstring
  cr_messages :: "chat_message list"
  cr_tools :: "json option"
  cr_tool_choice :: "jsstring option"
  cr_stream :: bool

record backend_request =
  br_content :: jsstring
  br_file_path :: "jsstring option"

text \<open>A response of \<open>fetch\<close>: its \<open>status\<close>, an unsigned short, and its body.\<close>

record upstream_response =
  up_status :: "16 word"
  up_body :: "read_result list option"

text \<open>\<open>await req.json()\<close> of the chat route, destructured: either field may be absent.\<close>

record request_json =
  req_messages :: "chat_message list option"
  req_filePath :: "jsstring option"

text \<open>
  The collaborators of the route: the environment variable, the tool-list
  endpoint, the model (\<open>stream: false\<close>, giving \<open>response.choices\<close>, and
  \<open>stream: true\<close>, giving the reads of \<open>OpenAIStream(streamResponse)\<close>) and the
  backend chat endpoint. Each maps the request the route sends to what the call
  settles to, \<open>Inl\<close> a rejection.
\<close>

record world =
  OPENAI_MODEL :: "jsstring option"
  tools_fetch :: "js_error + tools_response"
  completions_create :: "completion_request \<Rightarrow> js_error + choice list"
  completions_stream :: "completion_request \<Rightarrow> js_error + read_result list"
  backend_chat :: "backend_request \<Rightarrow> js_error + upstream_response"

definition model_name :: "world \<Rightarrow> jsstring" where
  "model_name w =
     (case OPENAI_MODEL w of
        None \<Rightarrow> js ''gpt-4o-mini-2024-07-18''
      | Some m \<Rightarrow> if m = [] then js ''gpt-4o-mini-2024-07-18'' else m)"

definition plain_messages :: "chat_message list \<Rightarrow> chat_message list" where
  "plain_messages ms = map (\<lambda>m. \<lparr>content = content m, role = role m\<rparr>) ms"

definition tool_systemMessage :: "tool_call list \<Rightarrow> jsstring" where
  "tool_systemMessage calls =
     [0x5B, 0x7CFB, 0x7D71, 0x5D, 0x20, 0x4F7F, 0x7528, 0x5DE5, 0x5177, 0x3A, 0x20]
     @ join (js '', '') (map function_name calls)
     @ [0x20, 0x4F86, 0x8655, 0x7406, 0x60A8, 0x7684, 0x8ACB, 0x6C42, 0x2E, 0x2E, 0x2E, 0x0A, 0x0A]"

definition direct_systemMessage :: jsstring where
  "direct_systemMessage =
     [0x5B, 0x7CFB, 0x7D71, 0x5D, 0x20, 0x76F4, 0x63A5, 0x56DE, 0x7B54, 0x60A8, 0x7684,
      0x554F, 0x984C, 0x2E, 0x2E, 0x2E, 0x0A, 0x0A]"

text \<open>
  \<open>new ReadableStream({ async start(controller) { ... } })\<close>: the system message is
  enqueued, then the reader is taken from the upstream body and the loop runs. In
  the tool branch the body may be \<open>null\<close>, and \<open>backendResponse.body!.getReader()\<close>
  then throws inside \<open>start\<close>.
\<close>

definition start_stream :: "jsstring \<Rightarrow> read_result list option \<Rightarrow> body" where
  "start_stream systemMessage upstream =
     (let q = [TextEncoder_encode systemMessage] in
      case upstream of
        None \<Rightarrow> Stream q Errored
      | Some rs \<Rightarrow> (case forward rs q of (q', st) \<Rightarrow> Stream q' st))"

text \<open>The requests the route sends: the two model calls and the backend call.\<close>

definition tool_choice_request :: "world \<Rightarrow> json \<Rightarrow> chat_message list \<Rightarrow> completion_request" where
  "tool_choice_request w tools messages =
     \<lparr>cr_model = model_name w, cr_messages = plain_messages messages,
      cr_tools = Some tools, cr_tool_choice = Some (js ''auto''), cr_stream = False\<rparr>"

definition answer_request :: "world \<Rightarrow> chat_message list \<Rightarrow> completion_request" where
  "answer_request w messages =
     \<lparr>cr_model = model_name w, cr_messages = plain_messages messages,
      cr_tools = None, cr_tool_choice = None, cr_stream = True\<rparr>"

definition backend_body :: "request_json \<Rightarrow> chat_message list \<Rightarrow> backend_request" where
  "backend_body rq messages =
     \<lparr>br_content = content (last messages), br_file_path = req_filePath rq\<rparr>"

definition tool_branch ::
  "world \<Rightarrow> request_json \<Rightarrow> chat_message list \<Rightarrow> tool_call list \<Rightarrow> js_error + response" where
  "tool_branch w rq messages calls =
     (case messages of
        [] \<Rightarrow> Inl (new_TypeError (js ''Cannot read properties of undefined (reading 'content')''))
      | _ # _ \<Rightarrow>
         (case backend_chat w (backend_body rq messages) of
            Inl e \<Rightarrow> Inl e
          | Inr backendResponse \<Rightarrow>
              Inr \<lparr>status = 200, headers = [],
                   body = start_stream (tool_systemMessage calls) (up_body backendResponse)\<rparr>))"

definition direct_branch :: "world \<Rightarrow> chat_message list \<Rightarrow> js_error + response" where
  "direct_branch w messages =
     (case completions_stream w (answer_request w messages) of
        Inl e \<Rightarrow> Inl e
      | Inr reads \<Rightarrow>
          Inr \<lparr>status = 200, headers = [],
               body = start_stream direct_systemMessage (Some reads)\<rparr>)"

text \<open>\<open>choice.message?.tool_calls?.length > 0\<close>, giving the calls when it holds.\<close>

definition requested_tool_calls :: "choice \<Rightarrow> tool_call list option" where
  "requested_tool_calls c =
     (case choice_message c of
        None \<Rightarrow> None
      | Some m \<Rightarrow>
          (case tool_calls m of
             None \<Rightarrow> None
           | Some calls \<Rightarrow> if length calls > 0 then Some calls else None))"

text \<open>
  The \<open>try\<close> block of \<open>POST\<close>: what it returns or throws, and the module state
  \<open>cachedTools\<close> it leaves. \<open>request\<close> is the outcome of its first statement: the
  destructured body, or the error with which \<open>await req.json()\<close> or the
  destructuring throws.
\<close>

definition POST_try ::
  "world \<Rightarrow> json \<Rightarrow> js_error + request_json \<Rightarrow> (js_error + response) \<times> json" where
  "POST_try w cachedTools request =
     (case request of
        Inl e \<Rightarrow> (Inl e, cachedTools)
      | Inr rq \<Rightarrow>
         (case getTools (tools_fetch w) cachedTools of
            (tools, cachedTools') \<Rightarrow>
              (case req_messages rq of
                 None \<Rightarrow>
                   Inl (new_TypeError (js ''Cannot read properties of undefined (reading 'map')''))
               | Some messages \<Rightarrow>
                  (case completions_create w (tool_choice_request w tools messages) of
                     Inl e \<Rightarrow> Inl e
                   | Inr choices \<Rightarrow>
                      (case choices of
                         [] \<Rightarrow>
                           Inl (new_TypeError
                                  (js ''Cannot read properties of undefined (reading 'message')''))
                       | choice # _ \<Rightarrow>
                          (case requested_tool_calls choice of
                             Some calls \<Rightarrow> tool_branch w rq messages calls
                           | None \<Rightarrow> direct_branch w messages))),
               cachedTools')))"

text \<open>
  \<open>new Response(text, { status })\<close> with a string body. An undefined \<open>status\<close>
  is 200; a number is converted to an unsigned short. A status outside 200 to 599
  throws a \<open>RangeError\<close>, and a null-body status (204, 205 and 304 in that range)
  throws a \<open>TypeError\<close>, the body not being null. The string body sets the
  \<open>content-type\<close> header. The two errors carry the messages Node gives them; a
  \<open>RangeError\<close> is an error of no kind the handlers tell apart.
\<close>

definition new_Response_text :: "jsstring \<Rightarrow> nat option \<Rightarrow> js_error + response" where
  "new_Response_text text st =
     (let n = (case st of None \<Rightarrow> 200 | Some v \<Rightarrow> v mod 65536) in
      if n < 200 \<or> 599 < n then
        Inl (new_Error
               (js (''init['' @ [CHR 0x22] @ ''status'' @ [CHR 0x22]
                    @ ''] must be in the range of 200 to 599, inclusive.'')))
      else if n \<in> {204, 205, 304} then
        Inl (new_TypeError
               (js ''Response constructor: Invalid response status code ''
                @ map (\<lambda>d. of_nat (48 + d)) (to_digits n)))
      else
        Inr \<lparr>status = n, headers = [(js ''content-type'', js ''text/plain;charset=UTF-8'')],
             body = Text text\<rparr>)"

text \<open>
  The \<open>catch\<close> block of \<open>POST\<close>: the response it returns, or the error that
  \<open>new Response\<close> throws inside it.
\<close>

definition POST_catch :: "js_error \<Rightarrow> js_error + response" where
  "POST_catch error =
     (case kind error of
        APIError st \<Rightarrow> new_Response_text (message error) st
      | _ \<Rightarrow> new_Response_text (js ''An error occurred'') (Some 500))"

text \<open>
  \<open>POST\<close>: the response its promise resolves to, or the error it rejects with, and
  the module state it leaves.
\<close>

definition POST ::
  "world \<Rightarrow> json \<Rightarrow> js_error + request_json \<Rightarrow> (js_error + response) \<times> json" where
  "POST w cachedTools request =
     (case POST_try w cachedTools request of
        (Inr r, cachedTools') \<Rightarrow> (Inr r, cachedTools')
      | (Inl error, cachedTools') \<Rightarrow> (POST_catch error, cachedTools'))"

section \<open>\<open>lib/tools/registry.ts\<close>: the tool registry\<close>

text \<open>
  \<open>new PydanticTool({ name, description, inputSchema, handler })\<close>. The handler is
  a function value; the registry never looks inside it, so its type is a parameter.
\<close>

record 'h PydanticTool =
  name :: jsstring
  description :: jsstring
  inputSchema :: "(jsstring \<times> jsstring) list"
  handler :: 'h

text \<open>
  \<open>private tools: Map<string, PydanticTool>\<close>. A JavaScript \<open>Map\<close> iterates in
  insertion order, and \<open>set\<close> on a key that is present replaces the value where the
  key stands; so the map is an association list with distinct keys.
\<close>

type_synonym 'h ToolRegistry = "(jsstring \<times> 'h PydanticTool) list"

fun Map_set :: "'k \<Rightarrow> 'v \<Rightarrow> ('k \<times> 'v) list \<Rightarrow> ('k \<times> 'v) list" where
  "Map_set k v [] = [(k, v)]"
| "Map_set k v ((k', v') # m) =
     (if k' = k then (k, v) # m else (k', v') # Map_set k v m)"

definition Map_get :: "'k \<Rightarrow> ('k \<times> 'v) list \<Rightarrow> 'v option" where
  "Map_get k m = map_of m k"

definition Map_values :: "('k \<times> 'v) list \<Rightarrow> 'v list" where
  "Map_values m = map snd m"

definition new_ToolRegistry :: "'h ToolRegistry" where
  "new_ToolRegistry = []"

definition register :: "'h PydanticTool \<Rightarrow> 'h ToolRegistry \<Rightarrow> 'h ToolRegistry" where
  "register tool r = Map_set (name tool) tool r"

definition get :: "jsstring \<Rightarrow> 'h ToolRegistry \<Rightarrow> 'h PydanticTool option" where
  "get n r = Map_get n r"

definition list_tools :: "'h ToolRegistry \<Rightarrow> 'h PydanticTool list" where
  "list_tools r = Map_values r"

text \<open>
  \<open>Object.values(tools).forEach(tool => registry.register(tool))\<close>, and any other
  sequence of \<open>register\<close> calls, in call order.
\<close>

definition register_all :: "'h PydanticTool list \<Rightarrow> 'h ToolRegistry \<Rightarrow> 'h ToolRegistry" where
  "register_all ts r = foldl (\<lambda>r' t. register t r') r ts"

text \<open>Every key of the map is the name of the tool stored under it.\<close>

definition keyed_by_name :: "'h ToolRegistry \<Rightarrow> bool" where
  "keyed_by_name r = (\<forall>(k, t) \<in> set r. name t = k)"

section \<open>The chat route that forwards to the Python API\<close>

text \<open>
  This route's \<open>POST\<close> (named \<open>POST_proxy\<close> here, the other route having the same
  name) reads \<open>{ messages, content }\<close> and passes both on as they are.
\<close>

record proxy_request =
  pr_messages :: "json option"
  pr_content :: "json option"

record proxy_world =
  PYTHON_API_URL :: "jsstring option"
  api_fetch :: "jsstring \<Rightarrow> proxy_request \<Rightarrow> js_error + upstream_response"

text \<open>\<open>response.ok\<close>: a status from 200 to 299.\<close>

definition ok :: "upstream_response \<Rightarrow> bool" where
  "ok r = (200 \<le> up_status r \<and> up_status r \<le> 299)"

text \<open>
  \<open>pump\<close>, on the chunks written to the \<open>TransformStream\<close> so far:
  \<^verbatim>\<open>while (true) { const { done, value } = await reader.read()
                 if (done) { await writer.close(); break }
                 await writer.write(value) }\<close>
  with \<open>catch (e) { await writer.abort(e) }\<close> around it.
\<close>

fun pump :: "read_result list \<Rightarrow> chunk list \<Rightarrow> chunk list \<times> stream_state" where
  "pump [] written = (written, Waiting)"
| "pump (Done # rs) written = (written, Closed)"
| "pump (Chunk v # rs) written = pump rs (written @ [v])"
| "pump (ReadRejected e # rs) written = (written, Errored)"

definition POST_proxy_try :: "proxy_world \<Rightarrow> js_error + proxy_request \<Rightarrow> js_error + response" where
  "POST_proxy_try w request =
     (case request of
        Inl e \<Rightarrow> Inl e
      | Inr rq \<Rightarrow>
         (case PYTHON_API_URL w of
            None \<Rightarrow> Inl (new_Error (js ''PYTHON_API_URL environment variable is not set''))
          | Some apiUrl \<Rightarrow>
              if apiUrl = [] then
                Inl (new_Error (js ''PYTHON_API_URL environment variable is not set''))
              else
                (case api_fetch w apiUrl rq of
                   Inl e \<Rightarrow> Inl e
                 | Inr r \<Rightarrow>
                     if \<not> ok r then
                       Inl (new_Error (js ''HTTP error! status: '' @ Number_toString (up_status r)))
                     else
                       Inr \<lparr>status = 200,
                            headers = [(js ''Content-Type'', js ''text/plain; charset=utf-8'')],
                            body = (case up_body r of
                                      None \<Rightarrow> Stream [] Waiting
                                    | Some rs \<Rightarrow>
                                        (case pump rs [] of (q, st) \<Rightarrow> Stream q st))\<rparr>)))"

definition POST_proxy :: "proxy_world \<Rightarrow> js_error + proxy_request \<Rightarrow> response" where
  "POST_proxy w request =
     (case POST_proxy_try w request of
        Inr r \<Rightarrow> r
      | Inl e \<Rightarrow>
          \<lparr>status = 500, headers = [(js ''content-type'', js ''application/json'')],
           body = Json (JObject [(js ''error'', JString (js ''Internal Server Error''))])\<rparr>)"

section \<open>The \<open>Chat\<close> component: \<open>handleSubmit\<close>\<close>

record ui_message =
  ui_role :: jsstring
  ui_content :: jsstring
  ui_id :: jsstring
  isCollapsed :: "bool option"

text \<open>
  \<open>uploadedFile\<close>; its \<open>rows\<close> and \<open>columns\<close> are JavaScript numbers, left as a type
  parameter.
\<close>

record 'n uploaded_file =
  path :: jsstring
  rows :: 'n
  columns :: 'n

text \<open>The component's state; \<open>status\<close> is \<open>ui_status\<close> here.\<close>

record chat_state =
  messages :: "ui_message list"
  input :: jsstring
  isLoading :: bool
  error :: "jsstring option"
  ui_status :: jsstring
  currentResponse :: jsstring

record chat_request =
  cq_messages :: "ui_message list"
  cq_content :: jsstring

text \<open>
  \<open>fetch('/api/chat', ...)\<close>, \<open>new TextDecoder().decode(value)\<close> of one chunk, and
  the string a template literal prints for a number.
\<close>

record 'n ui_world =
  fetch_chat :: "chat_request \<Rightarrow> js_error + upstream_response"
  decode :: "chunk \<Rightarrow> jsstring"
  String_of_number :: "'n \<Rightarrow> jsstring"

text \<open>\<open>String.prototype.trim\<close>: white space and line terminators of ECMAScript.\<close>

definition is_white_space :: "16 word \<Rightarrow> bool" where
  "is_white_space u =
     (u \<in> {0x09, 0x0A, 0x0B, 0x0C, 0x0D, 0x20, 0xA0, 0x1680, 0x2028, 0x2029, 0x202F,
            0x205F, 0x3000, 0xFEFF}
      \<or> (0x2000 \<le> u \<and> u \<le> 0x200A))"

definition trim :: "jsstring \<Rightarrow> jsstring" where
  "trim s = rev (dropWhile is_white_space (rev (dropWhile is_white_space s)))"

definition file_info :: "'n ui_world \<Rightarrow> 'n uploaded_file \<Rightarrow> ui_message" where
  "file_info w f =
     \<lparr>ui_role = js ''system'',
      ui_content =
        [0x5DF2, 0x4E0A, 0x50B3, 0x7684, 0x20, 0x45, 0x78, 0x63, 0x65, 0x6C, 0x20, 0x6587,
         0x4EF6, 0x4FE1, 0x606F, 0xFF1A, 0x0A, 0x8DEF, 0x5F91, 0xFF1A]
        @ path f @ [0x0A, 0x884C, 0x6578, 0xFF1A] @ String_of_number w (rows f)
        @ [0x0A, 0x5217, 0x6578, 0xFF1A] @ String_of_number w (columns f),
      ui_id = js ''file-info'', isCollapsed = None\<rparr>"

text \<open>
  The read loop of \<open>handleSubmit\<close> on \<open>fullResponse\<close>; \<open>currentResponse\<close> starts
  empty with it and receives the same text.
\<close>

datatype loop_end = LoopDone | LoopThrew js_error | LoopWaiting

fun read_loop :: "(chunk \<Rightarrow> jsstring) \<Rightarrow> read_result list \<Rightarrow> jsstring \<Rightarrow> jsstring \<times> loop_end" where
  "read_loop dec [] fullResponse = (fullResponse, LoopWaiting)"
| "read_loop dec (Done # rs) fullResponse = (fullResponse, LoopDone)"
| "read_loop dec (Chunk v # rs) fullResponse = read_loop dec rs (fullResponse @ dec v)"
| "read_loop dec (ReadRejected e # rs) fullResponse = (fullResponse, LoopThrew e)"

text \<open>
  The \<open>try\<close> block up to the end of the loop: the text received, and whether the
  block went on, threw, or is still awaiting a read.
\<close>

definition submit_try :: "'n ui_world \<Rightarrow> chat_request \<Rightarrow> jsstring \<times> loop_end" where
  "submit_try w requestBody =
     (case fetch_chat w requestBody of
        Inl e \<Rightarrow> ([], LoopThrew e)
      | Inr r \<Rightarrow>
          if \<not> ok r then
            ([], LoopThrew (new_Error [0x4F3A, 0x670D, 0x5668, 0x97FF, 0x61C9, 0x932F, 0x8AA4]))
          else
            (case up_body r of
               None \<Rightarrow> ([], LoopDone)
             | Some rs \<Rightarrow> read_loop (decode w) rs []))"

definition finally_clause :: "chat_state \<Rightarrow> chat_state" where
  "finally_clause s = s\<lparr>ui_status := [], isLoading := False\<rparr>"

text \<open>
  \<open>handleSubmit\<close>; \<open>now1\<close> and \<open>now2\<close> are \<open>Date.now().toString()\<close> at its two
  calls. The request is built from the \<open>messages\<close> of the render the handler
  belongs to; the state updates are the functional \<open>setMessages(prev => ...)\<close>.
\<close>

definition userMessage :: "jsstring \<Rightarrow> chat_state \<Rightarrow> ui_message" where
  "userMessage now1 s =
     \<lparr>ui_role = js ''user'', ui_content = input s, ui_id = now1, isCollapsed = None\<rparr>"

definition assistantMessage :: "jsstring \<Rightarrow> jsstring \<Rightarrow> ui_message" where
  "assistantMessage now2 fullResponse =
     \<lparr>ui_role = js ''assistant'', ui_content = fullResponse, ui_id = now2,
      isCollapsed = Some False\<rparr>"

definition requestBody ::
  "'n ui_world \<Rightarrow> 'n uploaded_file option \<Rightarrow> jsstring \<Rightarrow> chat_state \<Rightarrow> chat_request" where
  "requestBody w uploadedFile now1 s =
     \<lparr>cq_messages =
        (case uploadedFile of None \<Rightarrow> [] | Some f \<Rightarrow> [file_info w f])
        @ messages s @ [userMessage now1 s],
      cq_content = input s\<rparr>"

definition handleSubmit ::
  "'n ui_world \<Rightarrow> 'n uploaded_file option \<Rightarrow> jsstring \<Rightarrow> jsstring \<Rightarrow> chat_state \<Rightarrow> chat_state" where
  "handleSubmit w uploadedFile now1 now2 s =
     (if trim (input s) = [] then s
      else
        let s1 = s\<lparr>error := None,
                   ui_status := [0x6B63, 0x5728, 0x8655, 0x7406, 0x60A8, 0x7684, 0x8ACB, 0x6C42,
                                 0x2E, 0x2E, 0x2E],
                   currentResponse := [], isLoading := True,
                   messages := messages s @ [userMessage now1 s]\<rparr>
        in case submit_try w (requestBody w uploadedFile now1 s) of
             (fullResponse, LoopDone) \<Rightarrow>
               finally_clause
                 (s1\<lparr>messages := messages s1 @ [assistantMessage now2 fullResponse],
                     currentResponse := [], input := []\<rparr>)
           | (partial, LoopThrew err) \<Rightarrow>
               finally_clause
                 (s1\<lparr>currentResponse := partial,
                     error := Some (if message err = []
                                    then [0x62B1, 0x6B49, 0xFF0C, 0x767C, 0x751F, 0x4E86, 0x932F,
                                          0x8AA4, 0x3002, 0x8ACB, 0x7A0D, 0x5F8C, 0x518D, 0x8A66,
                                          0x3002]
                                    else message err)\<rparr>)
           | (partial, LoopWaiting) \<Rightarrow> s1\<lparr>currentResponse := partial\<rparr>)"

section \<open>\<open>lib/tools/definitions.ts\<close>: the \<open>excelAnalyzer\<close> handler\<close>

text \<open>
  The handler's argument \<open>{ filePath, query, operation }\<close>, and the two calls into
  the \<open>xlsx\<close> library, each of which may throw. A parsed row is an object from
  column names to cells, kept as its entries in the order \<open>Object.keys\<close> lists
  them; worksheets and cells are left as type parameters.
\<close>

record excel_args =
  filePath :: jsstring
  query :: jsstring
  operation :: jsstring

record 'ws workbook =
  SheetNames :: "jsstring list"
  Sheets :: "(jsstring \<times> 'ws) list"

record ('ws, 'c) xlsx =
  readFile :: "jsstring \<Rightarrow> js_error + 'ws workbook"
  sheet_to_json :: "'ws option \<Rightarrow> js_error + (jsstring \<times> 'c) list list"

datatype 'c analyzer_result =
  Summary (rowCount: nat) (summary_columns: "jsstring list") (sample: "(jsstring \<times> 'c) list list")
  | AnalyzeResult jsstring
  | ErrorResult jsstring

text \<open>
  The \<open>try\<close> block. \<open>workbook.SheetNames[0]\<close> is undefined for a workbook without
  sheets, and \<open>workbook.Sheets[undefined]\<close> then reads the property named
  \<open>undefined\<close>. \<open>Object.keys(data[0])\<close> throws a \<open>TypeError\<close> when \<open>data\<close> is empty.
\<close>

definition read_data :: "('ws, 'c) xlsx \<Rightarrow> jsstring \<Rightarrow> js_error + (jsstring \<times> 'c) list list" where
  "read_data x file =
     (case readFile x file of
        Inl e \<Rightarrow> Inl e
      | Inr wb \<Rightarrow>
         (let sheetName = (case SheetNames wb of [] \<Rightarrow> js ''undefined'' | n # _ \<Rightarrow> n);
              worksheet = map_of (Sheets wb) sheetName
          in sheet_to_json x worksheet))"

definition excelAnalyzer_try ::
  "('ws, 'c) xlsx \<Rightarrow> excel_args \<Rightarrow> js_error + 'c analyzer_result" where
  "excelAnalyzer_try x a =
     (case read_data x (filePath a) of
        Inl e \<Rightarrow> Inl e
      | Inr data \<Rightarrow>
          if operation a = js ''summary'' then
            (case data of
               [] \<Rightarrow> Inl (new_TypeError (js ''Cannot convert undefined or null to object''))
             | row # _ \<Rightarrow> Inr (Summary (length data) (map fst row) (take 5 data)))
          else if operation a = js ''analyze'' then
            Inr (AnalyzeResult [0x5206, 0x6790, 0x7D50, 0x679C])
          else
            Inr (ErrorResult [0x4E0D, 0x652F, 0x6301, 0x7684, 0x64CD, 0x4F5C]))"

text \<open>The handler: \<open>catch (error) { return { error: error.message } }\<close>.\<close>

definition excelAnalyzer_handler ::
  "('ws, 'c) xlsx \<Rightarrow> excel_args \<Rightarrow> js_error + 'c analyzer_result" where
  "excelAnalyzer_handler x a =
     (case excelAnalyzer_try x a of
        Inr r \<Rightarrow> Inr r
      | Inl e \<Rightarrow> Inr (ErrorResult (message e)))"

text \<open>The tool itself, as \<open>new PydanticTool({ ... })\<close> builds it.\<close>

definition excelAnalyzer ::
  "('ws, 'c) xlsx \<Rightarrow> (excel_args \<Rightarrow> js_error + 'c analyzer_result) PydanticTool" where
  "excelAnalyzer x =
     \<lparr>name = js ''excelAnalyzer'',
      description =
        [0x5206, 0x6790, 0x45, 0x78, 0x63, 0x65, 0x6C, 0x6587, 0x4EF6, 0x4E26, 0x57F7, 0x884C,
         0x6578, 0x64DA, 0x8655, 0x7406],
      inputSchema =
        [(js ''filePath'', js ''string''), (js ''query'', js ''string''),
         (js ''operation'', js ''string'')],
      handler = excelAnalyzer_handler x\<rparr>"

section \<open>Tool schemas declared beside the forwarding route\<close>

text \<open>\<open>const tools = [ ... ]\<close>: each tool's name, description and JSON schema.\<close>

record property_schema =
  prop_type :: jsstring
  prop_description :: jsstring

record parameters_schema =
  params_type :: jsstring
  properties :: "(jsstring \<times> property_schema) list"
  required :: "jsstring list"

record tool_schema =
  tool_name :: jsstring
  tool_description :: jsstring
  parameters :: parameters_schema

definition analyzeExcel :: tool_schema where
  "analyzeExcel =
     \<lparr>tool_name = js ''analyzeExcel'',
      tool_description =
        [0x5206, 0x6790, 0x45, 0x78, 0x63, 0x65, 0x6C, 0x6587, 0x4EF6, 0x6578, 0x64DA],
      parameters =
        \<lparr>params_type = js ''object'',
         properties =
           [(js ''filePath'',
             \<lparr>prop_type = js ''string'',
              prop_description = [0x45, 0x78, 0x63, 0x65, 0x6C, 0x6587, 0x4EF6, 0x8DEF, 0x5F91]\<rparr>),
            (js ''query'',
             \<lparr>prop_type = js ''string'',
              prop_description = [0x5206, 0x6790, 0x67E5, 0x8A62]\<rparr>)],
         required = [js ''filePath'', js ''query'']\<rparr>\<rparr>"

definition queryDatabase :: tool_schema where
  "queryDatabase =
     \<lparr>tool_name = js ''queryDatabase'',
      tool_description = [0x57F7, 0x884C, 0x6578, 0x64DA, 0x5EAB, 0x67E5, 0x8A62],
      parameters =
        \<lparr>params_type = js ''object'',
         properties =
           [(js ''query'',
             \<lparr>prop_type = js ''string'',
              prop_description = [0x53, 0x51, 0x4C, 0x67E5, 0x8A62, 0x8A9E, 0x53E5]\<rparr>)],
         required = [js ''query'']\<rparr>\<rparr>"

definition tools :: "tool_schema list" where
  "tools = [analyzeExcel, queryDatabase]"

section \<open>Components described by the specification only\<close>

subsection \<open>Execution results\<close>

text \<open>
  Modelled from the spec: the ExecutionResult of the data model, which no source
  file declares: captured stdout, a terminal value or its absence, an outcome tag
  and the elapsed time.
\<close>

datatype outcome_tag = success | timeout | memory_exceeded | runtime_error | validation_rejected

record ExecutionResult =
  stdout :: "jsstring list"
  terminal_value :: "json option"
  outcome :: outcome_tag
  elapsed :: nat

definition rejected_result :: ExecutionResult where
  "rejected_result =
     \<lparr>stdout = [], terminal_value = None, outcome = validation_rejected, elapsed = 0\<rparr>"

subsection \<open>Code validation before execution\<close>

text \<open>
  Modelled from the spec: the abstract structure of generated code, on which the
  Code Validator works; the validator, the Sandbox Executor and the
  dataset-analysis handler are missing from the sources (they belong to the Python
  service that the routes call). Expressions and statements of Python, as far as
  the validator's rules tell them apart.
\<close>

datatype py_expr =
  PyName string
  | PyConstant json
  | PyAttribute py_expr string
  | PyCall py_expr "py_expr list"
  | PySubscript py_expr py_expr
  | PyBinOp py_expr py_expr

datatype py_stmt =
  PyExpr py_expr
  | PyAssign string py_expr
  | PyImport string
  | PyIf py_expr "py_stmt list" "py_stmt list"
  | PyWhile py_expr "py_stmt list"

text \<open>
  Modelled from the spec: the Capability Allowlist, missing from the sources:
  permitted builtins, permitted import names, the single injected dataframe
  binding, and the process, network and filesystem entry points denied besides
  \<open>exec\<close>, \<open>eval\<close>, \<open>compile\<close>, \<open>open\<close> and \<open>__import__\<close>.
\<close>

record allowlist =
  permitted_builtins :: "string list"
  permitted_imports :: "string list"
  dataframe_binding :: string
  denied_entry_points :: "string list"

datatype reason =
  SyntaxInvalid | ImportNotAllowed string | DunderAttribute string | DeniedCall string
  | NameNotAllowed string

datatype verdict = accepted | rejected reason

definition deny_list :: "allowlist \<Rightarrow> string list" where
  "deny_list al =
     [''exec'', ''eval'', ''compile'', ''open'', ''__import__''] @ denied_entry_points al"

text \<open>
  Modelled from the spec: the Code Validator, missing from the sources. It makes a
  static pass over the code's abstract structure and rejects any import of a
  module not in the allowlist, any attribute access beginning and ending with a
  double underscore, any call to a name on the deny-list, and any assignment to or
  read of a name other than the dataframe binding and the permitted builtins;
  code that does not parse is rejected. The verdict names the first offending
  construct. The parser is a parameter.
\<close>

definition is_dunder :: "string \<Rightarrow> bool" where
  "is_dunder a = (take 2 a = ''__'' \<and> take 2 (rev a) = ''__'')"

definition name_violations :: "allowlist \<Rightarrow> string \<Rightarrow> reason list" where
  "name_violations al n =
     (if n = dataframe_binding al \<or> n \<in> set (permitted_builtins al) then []
      else [NameNotAllowed n])"

fun expr_violations :: "allowlist \<Rightarrow> py_expr \<Rightarrow> reason list" where
  "expr_violations al (PyName n) = name_violations al n"
| "expr_violations al (PyConstant v) = []"
| "expr_violations al (PyAttribute e a) =
     (if is_dunder a then [DunderAttribute a] else []) @ expr_violations al e"
| "expr_violations al (PyCall (PyName f) args) =
     (if f \<in> set (deny_list al) then [DeniedCall f] else name_violations al f)
     @ concat (map (expr_violations al) args)"
| "expr_violations al (PyCall f args) =
     expr_violations al f @ concat (map (expr_violations al) args)"
| "expr_violations al (PySubscript e i) = expr_violations al e @ expr_violations al i"
| "expr_violations al (PyBinOp l r) = expr_violations al l @ expr_violations al r"

fun stmt_violations :: "allowlist \<Rightarrow> py_stmt \<Rightarrow> reason list" where
  "stmt_violations al (PyExpr e) = expr_violations al e"
| "stmt_violations al (PyAssign n e) = name_violations al n @ expr_violations al e"
| "stmt_violations al (PyImport m) =
     (if m \<in> set (permitted_imports al) then [] else [ImportNotAllowed m])"
| "stmt_violations al (PyIf c t e) =
     expr_violations al c @ concat (map (stmt_violations al) t)
     @ concat (map (stmt_violations al) e)"
| "stmt_violations al (PyWhile c b) =
     expr_violations al c @ concat (map (stmt_violations al) b)"

definition validate :: "(string \<Rightarrow> py_stmt list option) \<Rightarrow> allowlist \<Rightarrow> string \<Rightarrow> verdict" where
  "validate parse al code_text =
     (case parse code_text of
        None \<Rightarrow> rejected SyntaxInvalid
      | Some prog \<Rightarrow>
          (case concat (map (stmt_violations al) prog) of
             [] \<Rightarrow> accepted
           | r # _ \<Rightarrow> rejected r))"

text \<open>
  What a program contains, read off its structure without reference to the
  validator: the names it calls and the attributes it accesses.
\<close>

fun called_names :: "py_expr \<Rightarrow> string list" where
  "called_names (PyName n) = []"
| "called_names (PyConstant v) = []"
| "called_names (PyAttribute e a) = called_names e"
| "called_names (PyCall (PyName f) args) = f # concat (map called_names args)"
| "called_names (PyCall f args) = called_names f @ concat (map called_names args)"
| "called_names (PySubscript e i) = called_names e @ called_names i"
| "called_names (PyBinOp l r) = called_names l @ called_names r"

fun accessed_attributes :: "py_expr \<Rightarrow> string list" where
  "accessed_attributes (PyName n) = []"
| "accessed_attributes (PyConstant v) = []"
| "accessed_attributes (PyAttribute e a) = a # accessed_attributes e"
| "accessed_attributes (PyCall f args) =
     accessed_attributes f @ concat (map accessed_attributes args)"
| "accessed_attributes (PySubscript e i) = accessed_attributes e @ accessed_attributes i"
| "accessed_attributes (PyBinOp l r) = accessed_attributes l @ accessed_attributes r"

fun stmt_exprs :: "py_stmt \<Rightarrow> py_expr list" where
  "stmt_exprs (PyExpr e) = [e]"
| "stmt_exprs (PyAssign n e) = [e]"
| "stmt_exprs (PyImport m) = []"
| "stmt_exprs (PyIf c t e) = c # concat (map stmt_exprs t) @ concat (map stmt_exprs e)"
| "stmt_exprs (PyWhile c b) = c # concat (map stmt_exprs b)"

definition program_calls :: "py_stmt list \<Rightarrow> string list" where
  "program_calls prog = concat (map called_names (concat (map stmt_exprs prog)))"

definition program_attributes :: "py_stmt list \<Rightarrow> string list" where
  "program_attributes prog = concat (map accessed_attributes (concat (map stmt_exprs prog)))"

text \<open>
  Modelled from the spec: the dataset-analysis handler, missing from the sources.
  It composes Code Generator, Code Validator and Sandbox Executor in that order;
  an empty generation is a \<open>runtime_error\<close> before validation is attempted, and
  rejected code is never passed to the executor. Generator and executor are
  parameters. The second component of the result lists the code texts the executor
  was run on.
\<close>

definition analyze_dataset ::
  "(jsstring \<Rightarrow> 'schema \<Rightarrow> string) \<Rightarrow> (string \<Rightarrow> py_stmt list option) \<Rightarrow> allowlist \<Rightarrow>
   (string \<Rightarrow> ExecutionResult) \<Rightarrow> jsstring \<Rightarrow> 'schema \<Rightarrow> ExecutionResult \<times> string list" where
  "analyze_dataset generate parse al run request dataset_schema =
     (let code_text = generate request dataset_schema in
      if code_text = [] then
        (\<lparr>stdout = [], terminal_value = None, outcome = runtime_error, elapsed = 0\<rparr>, [])
      else
        (case validate parse al code_text of
           rejected r \<Rightarrow> (rejected_result, [])
         | accepted \<Rightarrow> (run code_text, [code_text])))"

section \<open>Concrete turns used to exercise the theorems\<close>

subsection \<open>Turns of the chat route\<close>

definition example_messages :: "chat_message list" where
  "example_messages = [\<lparr>content = js ''how many rows?'', role = js ''user''\<rparr>]"

definition example_request :: "js_error + request_json" where
  "example_request =
     Inr \<lparr>req_messages = Some example_messages, req_filePath = Some (js ''/tmp/data.xlsx'')\<rparr>"

definition two_calls :: "tool_call list" where
  "two_calls =
     [\<lparr>function_name = js ''analyzeExcel'', function_arguments = js ''{}''\<rparr>,
      \<lparr>function_name = js ''queryDatabase'', function_arguments = js ''{}''\<rparr>]"

text \<open>
  The model asks for two tools in one turn; the backend answers 200 with the
  chunks \<open>4\<close> and \<open>2\<close>; the tool-list endpoint is down.
\<close>

definition world_two_calls :: world where
  "world_two_calls =
     \<lparr>OPENAI_MODEL = None,
      tools_fetch = Inl (new_TypeError (js ''fetch failed'')),
      completions_create =
        (\<lambda>_. Inr [\<lparr>choice_message =
                       Some \<lparr>message_content = None, tool_calls = Some two_calls\<rparr>\<rparr>]),
      completions_stream = (\<lambda>_. Inr [Chunk [0x68], Chunk [0x69], Done]),
      backend_chat =
        (\<lambda>_. Inr \<lparr>up_status = 200, up_body = Some [Chunk [0x34], Chunk [0x32], Done]\<rparr>)\<rparr>"

text \<open>
  A turn in which the model asks for \<open>analyzeExcel\<close> with the arguments \<open>{}\<close>,
  which hold neither of the fields the tool's schema requires; and the same turn
  with both fields given.
\<close>

definition call_without_arguments :: "tool_call list" where
  "call_without_arguments =
     [\<lparr>function_name = js ''analyzeExcel'', function_arguments = js ''{}''\<rparr>]"

definition call_with_arguments :: "tool_call list" where
  "call_with_arguments =
     [\<lparr>function_name = js ''analyzeExcel'',
       function_arguments =
         js (''{'' @ [CHR 0x22] @ ''filePath'' @ [CHR 0x22] @ '':'' @ [CHR 0x22]
             @ ''/tmp/data.xlsx'' @ [CHR 0x22] @ '','' @ [CHR 0x22] @ ''query'' @ [CHR 0x22]
             @ '':'' @ [CHR 0x22] @ ''rows'' @ [CHR 0x22] @ ''}'')\<rparr>]"

definition world_one_call :: "tool_call list \<Rightarrow> world" where
  "world_one_call calls =
     world_two_calls\<lparr>completions_create :=
        (\<lambda>_. Inr [\<lparr>choice_message =
                       Some \<lparr>message_content = None, tool_calls = Some calls\<rparr>\<rparr>])\<rparr>"

text \<open>The same turn, the backend answering 204 without a body.\<close>

definition world_null_body :: world where
  "world_null_body =
     world_two_calls\<lparr>backend_chat := (\<lambda>_. Inr \<lparr>up_status = 204, up_body = None\<rparr>)\<rparr>"

text \<open>The same turn, the backend's body breaking off after its first chunk.\<close>

definition world_read_rejected :: world where
  "world_read_rejected =
     world_two_calls\<lparr>backend_chat :=
        (\<lambda>_. Inr \<lparr>up_status = 200,
                   up_body = Some [Chunk [0x34], ReadRejected (new_TypeError (js ''terminated''))]\<rparr>)\<rparr>"

text \<open>The same turn, the backend unreachable.\<close>

definition world_backend_down :: world where
  "world_backend_down =
     world_two_calls\<lparr>backend_chat := (\<lambda>_. Inl (new_TypeError (js ''fetch failed'')))\<rparr>"

text \<open>The model answers directly, streaming \<open>h\<close> and \<open>i\<close>.\<close>

definition world_direct :: world where
  "world_direct =
     world_two_calls\<lparr>completions_create :=
        (\<lambda>_. Inr [\<lparr>choice_message =
                       Some \<lparr>message_content = Some (js ''hi''), tool_calls = None\<rparr>\<rparr>])\<rparr>"

text \<open>The model refusing the call: an \<open>APIError\<close> with status 429.\<close>

definition rate_limit_error :: js_error where
  "rate_limit_error =
     \<lparr>kind = APIError (Some 429), message = js ''429 Rate limit reached'',
      stack = js ''Error: 429 Rate limit reached at APIError.generate (error.js)''\<rparr>"

definition world_model_429 :: world where
  "world_model_429 = world_two_calls\<lparr>completions_create := (\<lambda>_. Inl rate_limit_error)\<rparr>"

subsection \<open>Turns of the forwarding route\<close>

definition example_proxy_request :: "js_error + proxy_request" where
  "example_proxy_request =
     Inr \<lparr>pr_messages = Some (JArray []), pr_content = Some (JString (js ''how many rows?''))\<rparr>"

definition proxy_world_ok :: proxy_world where
  "proxy_world_ok =
     \<lparr>PYTHON_API_URL = Some (js ''http://127.0.0.1:8000/api/chat''),
      api_fetch = (\<lambda>_ _. Inr \<lparr>up_status = 200, up_body = Some [Chunk [0x34], Chunk [0x32], Done]\<rparr>)\<rparr>"

definition proxy_world_down :: proxy_world where
  "proxy_world_down =
     proxy_world_ok\<lparr>api_fetch := (\<lambda>_ _. Inl (new_TypeError (js ''fetch failed'')))\<rparr>"

definition proxy_world_unset :: proxy_world where
  "proxy_world_unset = proxy_world_ok\<lparr>PYTHON_API_URL := None\<rparr>"

definition proxy_world_503 :: proxy_world where
  "proxy_world_503 =
     proxy_world_ok\<lparr>api_fetch := (\<lambda>_ _. Inr \<lparr>up_status = 503, up_body = Some [Done]\<rparr>)\<rparr>"

subsection \<open>Submissions in the \<open>Chat\<close> component\<close>

text \<open>
  A decoder for the examples: right on ASCII bytes, which is all they send. Their
  file sizes are unsigned shorts, printed in decimal.
\<close>

definition decode_ascii :: "chunk \<Rightarrow> jsstring" where
  "decode_ascii v = map ucast v"

definition example_state :: chat_state where
  "example_state =
     \<lparr>messages = [], input = js ''hi'', isLoading = False, error = None, ui_status = [],
      currentResponse = []\<rparr>"

text \<open>The same input after one earlier exchange.\<close>

definition example_history :: "ui_message list" where
  "example_history =
     [\<lparr>ui_role = js ''user'', ui_content = js ''hello'', ui_id = js ''0'', isCollapsed = None\<rparr>,
      \<lparr>ui_role = js ''assistant'', ui_content = js ''Hello!'', ui_id = js ''0'',
       isCollapsed = Some False\<rparr>]"

definition example_state_history :: chat_state where
  "example_state_history = example_state\<lparr>messages := example_history\<rparr>"

definition ui_world_ok :: "16 word ui_world" where
  "ui_world_ok =
     \<lparr>fetch_chat =
        (\<lambda>_. Inr \<lparr>up_status = 200, up_body = Some [Chunk [0x34], Chunk [0x32], Done]\<rparr>),
      decode = decode_ascii, String_of_number = Number_toString\<rparr>"

definition ui_world_broken :: "16 word ui_world" where
  "ui_world_broken =
     \<lparr>fetch_chat =
        (\<lambda>_. Inr \<lparr>up_status = 200,
                   up_body = Some [Chunk [0x34], ReadRejected (new_TypeError (js ''network error''))]\<rparr>),
      decode = decode_ascii, String_of_number = Number_toString\<rparr>"

subsection \<open>Workbooks for \<open>excelAnalyzer\<close>\<close>

definition two_rows :: "(jsstring \<times> nat) list list" where
  "two_rows = [[(js ''id'', 1), (js ''age'', 30)], [(js ''id'', 2), (js ''age'', 41)]]"

definition xlsx_two_rows :: "(unit, nat) xlsx" where
  "xlsx_two_rows =
     \<lparr>readFile = (\<lambda>_. Inr \<lparr>SheetNames = [js ''Sheet1''], Sheets = [(js ''Sheet1'', ())]\<rparr>),
      sheet_to_json = (\<lambda>_. Inr two_rows)\<rparr>"

definition xlsx_no_rows :: "(unit, nat) xlsx" where
  "xlsx_no_rows = xlsx_two_rows\<lparr>sheet_to_json := (\<lambda>_. Inr [])\<rparr>"

definition example_args :: "jsstring \<Rightarrow> excel_args" where
  "example_args op = \<lparr>filePath = js ''data.xlsx'', query = js ''rows'', operation = op\<rparr>"

subsection \<open>Generated code\<close>

definition example_allowlist :: allowlist where
  "example_allowlist =
     \<lparr>permitted_builtins = [''len'', ''print''], permitted_imports = [''math''],
      dataframe_binding = ''df'', denied_entry_points = [''system'']\<rparr>"

text \<open>A parser for the two code texts of the examples.\<close>

definition example_parse :: "string \<Rightarrow> py_stmt list option" where
  "example_parse t =
     (if t = ''print(eval(df))'' then
        Some [PyExpr (PyCall (PyName ''print'') [PyCall (PyName ''eval'') [PyName ''df'']])]
      else if t = ''n = df.__class__'' then
        Some [PyAssign ''n'' (PyAttribute (PyName ''df'') ''__class__'')]
      else None)"

definition example_run :: "string \<Rightarrow> ExecutionResult" where
  "example_run code_text =
     \<lparr>stdout = [], terminal_value = Some (JNumber 120), outcome = success, elapsed = 1\<rparr>"

section \<open>Properties of the tool registry\<close>

lemma map_of_Map_set: "map_of (Map_set k v m) = (map_of m)(k \<mapsto> v)"
  by (induction m) auto

lemma keys_Map_set: "fst ` set (Map_set k v m) = insert k (fst ` set m)"
proof (induction m)
  case Nil
  show ?case by simp
next
  case (Cons p m)
  obtain k' v' where p: "p = (k', v')" by (cases p)
  show ?case
  proof (cases "k' = k")
    case True
    then show ?thesis by (simp add: p)
  next
    case False
    then show ?thesis using Cons by (simp add: p insert_commute)
  qed
qed

lemma distinct_Map_set: "distinct (map fst m) \<Longrightarrow> distinct (map fst (Map_set k v m))"
proof (induction m)
  case Nil
  show ?case by simp
next
  case (Cons p m)
  obtain k' v' where p: "p = (k', v')" by (cases p)
  show ?case
  proof (cases "k' = k")
    case True
    then show ?thesis using Cons.prems by (simp add: p)
  next
    case False
    then show ?thesis using Cons by (simp add: p keys_Map_set)
  qed
qed

lemma get_register: "get n (register t r) = (if name t = n then Some t else get n r)"
  by (simp add: get_def register_def Map_get_def map_of_Map_set)

lemma keys_register: "fst ` set (register t r) = insert (name t) (fst ` set r)"
  by (simp add: register_def keys_Map_set)

lemma distinct_register: "distinct (map fst r) \<Longrightarrow> distinct (map fst (register t r))"
  by (simp add: register_def distinct_Map_set)

lemma entry_Map_set:
  "(\<forall>(k', t') \<in> set m. P k' t') \<Longrightarrow> P k v \<Longrightarrow> \<forall>(k', t') \<in> set (Map_set k v m). P k' t'"
  by (induction m) (auto split: if_splits)

lemma keyed_register: "keyed_by_name r \<Longrightarrow> keyed_by_name (register t r)"
  unfolding keyed_by_name_def register_def by (rule entry_Map_set) auto

lemma get_register_all_snoc:
  "get n (register_all (ts @ [t]) r) = (if name t = n then Some t else get n (register_all ts r))"
  by (simp add: register_all_def get_register)

lemma get_register_all:
  "get n (register_all ts new_ToolRegistry) = find (\<lambda>t. name t = n) (rev ts)"
proof (induction ts rule: rev_induct)
  case Nil
  show ?case by (simp add: register_all_def get_def Map_get_def new_ToolRegistry_def)
next
  case (snoc t ts)
  then show ?case by (simp add: get_register_all_snoc)
qed

lemma keys_register_all:
  "fst ` set (register_all ts new_ToolRegistry) = name ` set ts"
proof (induction ts rule: rev_induct)
  case Nil
  show ?case by (simp add: register_all_def new_ToolRegistry_def)
next
  case (snoc t ts)
  have "register_all (ts @ [t]) new_ToolRegistry = register t (register_all ts new_ToolRegistry)"
    by (simp add: register_all_def)
  with snoc show ?case by (simp add: keys_register)
qed

lemma distinct_register_all:
  "distinct (map fst (register_all ts (new_ToolRegistry :: 'h ToolRegistry)))"
proof (induction ts rule: rev_induct)
  case Nil
  show ?case by (simp add: register_all_def new_ToolRegistry_def)
next
  case (snoc t ts)
  have "register_all (ts @ [t]) new_ToolRegistry = register t (register_all ts new_ToolRegistry)"
    by (simp add: register_all_def)
  with snoc show ?case by (simp add: distinct_register)
qed

lemma keyed_register_all:
  "keyed_by_name (register_all ts (new_ToolRegistry :: 'h ToolRegistry))"
proof (induction ts rule: rev_induct)
  case Nil
  show ?case by (simp add: register_all_def new_ToolRegistry_def keyed_by_name_def)
next
  case (snoc t ts)
  have "register_all (ts @ [t]) new_ToolRegistry = register t (register_all ts new_ToolRegistry)"
    by (simp add: register_all_def)
  with snoc show ?case by (simp add: keyed_register)
qed

lemma names_list_tools:
  "keyed_by_name r \<Longrightarrow> map name (list_tools r) = map fst r"
  by (induction r) (auto simp: keyed_by_name_def list_tools_def Map_values_def)

text \<open>
  C10. After any sequence \<open>ts\<close> of \<open>register\<close> calls on a new registry, \<open>get n\<close> is
  the last tool of \<open>ts\<close> named \<open>n\<close>; it is undefined exactly when no tool of \<open>ts\<close> has
  that name; and \<open>list()\<close> holds one tool per distinct registered name: its names
  are distinct, they are the registered names, and its length is their number.
\<close>

theorem registry_get_latest_list_distinct:
  "get n (register_all ts new_ToolRegistry) = find (\<lambda>t. name t = n) (rev ts)
   \<and> (get n (register_all ts new_ToolRegistry) = None \<longleftrightarrow> n \<notin> name ` set ts)
   \<and> distinct (map name (list_tools (register_all ts new_ToolRegistry)))
   \<and> set (map name (list_tools (register_all ts new_ToolRegistry))) = name ` set ts
   \<and> length (list_tools (register_all ts new_ToolRegistry)) = card (name ` set ts)"
proof -
  let ?r = "register_all ts new_ToolRegistry"
  have g: "get n ?r = find (\<lambda>t. name t = n) (rev ts)"
    by (rule get_register_all)
  have u: "get n ?r = None \<longleftrightarrow> n \<notin> name ` set ts"
    unfolding g by (auto simp: find_None_iff)
  have names: "map name (list_tools ?r) = map fst ?r"
    by (rule names_list_tools) (rule keyed_register_all)
  have d: "distinct (map name (list_tools ?r))"
    unfolding names by (rule distinct_register_all)
  have s: "set (map name (list_tools ?r)) = name ` set ts"
    unfolding names by (simp add: keys_register_all)
  have "length (list_tools ?r) = length (map name (list_tools ?r))" by simp
  also have "\<dots> = card (set (map name (list_tools ?r)))"
    using d by (simp only: distinct_card)
  finally have l: "length (list_tools ?r) = card (name ` set ts)"
    unfolding s .
  from g u d s l show ?thesis by blast
qed

section \<open>Properties of the streams and of the chat routes\<close>

lemma forward_produced: "forward rs q = (q @ produced rs, ending rs)"
proof (induction rs arbitrary: q)
  case Nil
  show ?case by simp
next
  case (Cons r rs)
  then show ?case by (cases r) simp_all
qed

lemma pump_produced: "pump rs q = (q @ produced rs, ending rs)"
proof (induction rs arbitrary: q)
  case Nil
  show ?case by simp
next
  case (Cons r rs)
  then show ?case by (cases r) simp_all
qed

lemma start_stream_eq:
  "start_stream m upstream =
     (case upstream of
        Some rs \<Rightarrow> Stream (TextEncoder_encode m # produced rs) (ending rs)
      | None \<Rightarrow> Stream [TextEncoder_encode m] Errored)"
  by (simp add: start_stream_def forward_produced split: option.splits)

lemma POST_tool_path:
  assumes "request = Inr rq" and "req_messages rq = Some ms" and "ms \<noteq> []"
    and "completions_create w (tool_choice_request w (fst (getTools (tools_fetch w) c)) ms)
           = Inr (ch # chs)"
    and "requested_tool_calls ch = Some calls"
    and "backend_chat w (backend_body rq ms) = Inr br"
  shows "fst (POST w c request) =
           Inr \<lparr>status = 200, headers = [],
                body = start_stream (tool_systemMessage calls) (up_body br)\<rparr>"
proof (cases "getTools (tools_fetch w) c")
  case (Pair t c')
  with assms show ?thesis
    by (cases ms) (simp_all add: POST_def POST_try_def tool_branch_def)
qed

lemma POST_direct_path:
  assumes "request = Inr rq" and "req_messages rq = Some ms"
    and "completions_create w (tool_choice_request w (fst (getTools (tools_fetch w) c)) ms)
           = Inr (ch # chs)"
    and "requested_tool_calls ch = None"
    and "completions_stream w (answer_request w ms) = Inr rs"
  shows "fst (POST w c request) =
           Inr \<lparr>status = 200, headers = [], body = start_stream direct_systemMessage (Some rs)\<rparr>"
proof (cases "getTools (tools_fetch w) c")
  case (Pair t c')
  with assms show ?thesis
    by (simp add: POST_def POST_try_def direct_branch_def)
qed

lemma requested_tool_calls_nonempty: "requested_tool_calls ch = Some calls \<Longrightarrow> calls \<noteq> []"
  by (auto simp: requested_tool_calls_def split: option.splits if_splits)

lemma new_Response_text_body: "new_Response_text t st = Inr r \<Longrightarrow> body r = Text t"
  by (auto simp: new_Response_text_def Let_def split: if_splits)

lemma body_POST_catch: "POST_catch e = Inr r \<Longrightarrow> \<exists>t. body r = Text t"
  by (auto simp: POST_catch_def split: error_kind.splits dest: new_Response_text_body)

lemma tool_branch_stream:
  "tool_branch w rq ms calls = Inr r \<Longrightarrow> \<exists>up. body r = start_stream (tool_systemMessage calls) up"
  by (auto simp: tool_branch_def split: list.splits sum.splits)

lemma direct_branch_stream:
  "direct_branch w ms = Inr r \<Longrightarrow> \<exists>rs. body r = start_stream direct_systemMessage (Some rs)"
  by (auto simp: direct_branch_def split: sum.splits)

lemma POST_try_stream:
  assumes "fst (POST_try w c request) = Inr r"
  shows "(\<exists>calls up. calls \<noteq> [] \<and> body r = start_stream (tool_systemMessage calls) up)
         \<or> (\<exists>rs. body r = start_stream direct_systemMessage (Some rs))"
proof (cases request)
  case (Inl e)
  with assms show ?thesis by (simp add: POST_try_def)
next
  case (Inr rq)
  obtain t c' where g: "getTools (tools_fetch w) c = (t, c')" by (cases "getTools (tools_fetch w) c")
  show ?thesis
  proof (cases "req_messages rq")
    case None
    with assms Inr g show ?thesis by (simp add: POST_try_def)
  next
    case (Some ms)
    show ?thesis
    proof (cases "completions_create w (tool_choice_request w t ms)")
      case (Inl e)
      with assms Inr g Some show ?thesis by (simp add: POST_try_def)
    next
      case cr: (Inr choices)
      show ?thesis
      proof (cases choices)
        case Nil
        with assms Inr g Some cr show ?thesis by (simp add: POST_try_def)
      next
        case (Cons ch chs)
        show ?thesis
        proof (cases "requested_tool_calls ch")
          case None
          with assms Inr g Some cr Cons have "direct_branch w ms = Inr r"
            by (simp add: POST_try_def)
          then show ?thesis by (blast dest: direct_branch_stream)
        next
          case calls: (Some calls)
          with assms Inr g Some cr Cons have "tool_branch w rq ms calls = Inr r"
            by (simp add: POST_try_def)
          with calls show ?thesis
            by (blast dest: tool_branch_stream requested_tool_calls_nonempty)
        qed
      qed
    qed
  qed
qed

lemma POST_stream_starts_with_notice:
  assumes "fst (POST w c request) = Inr r" and "body r = Stream q st"
  shows "q \<noteq> [] \<and> (hd q = TextEncoder_encode direct_systemMessage
           \<or> (\<exists>calls. calls \<noteq> [] \<and> hd q = TextEncoder_encode (tool_systemMessage calls)))"
proof (cases "POST_try w c request")
  case (Pair res c')
  show ?thesis
  proof (cases res)
    case (Inl e)
    with Pair assms(1) have "POST_catch e = Inr r" by (simp add: POST_def)
    from body_POST_catch [OF this] assms(2) show ?thesis by auto
  next
    case (Inr r')
    with Pair assms(1) have "r' = r" by (simp add: POST_def)
    with Inr Pair have "fst (POST_try w c request) = Inr r" by simp
    from POST_try_stream [OF this] assms(2) show ?thesis
      by (auto simp: start_stream_eq split: option.splits)
  qed
qed

lemma POST_proxy_stream:
  assumes "prequest = Inr prq" and "PYTHON_API_URL pw = Some url" and "url \<noteq> []"
    and "api_fetch pw url prq = Inr up" and "ok up" and "up_body up = Some rs"
  shows "body (POST_proxy pw prequest) = Stream (produced rs) (ending rs)"
  using assms by (simp add: POST_proxy_def POST_proxy_try_def pump_produced)

text \<open>
  C4. In both branches of the chat route the first chunk enqueued on the response
  stream is the encoded system message (naming the tools in the tool branch,
  announcing a direct answer otherwise), and the chunks after it are exactly those
  the upstream (the backend's body, or the model's stream) produced before it
  ended, in production order; the stream then ends as the upstream did. A tool
  turn whose backend response has no body has the notice alone on an errored
  stream. Whatever the inputs, a stream returned by the route is non-empty and
  starts with one of the two notices. The forwarding route writes exactly its
  upstream's chunks, in order.
\<close>

theorem status_notice_first_then_upstream_order:
  "(request = Inr rq \<and> req_messages rq = Some ms \<and> ms \<noteq> []
      \<and> completions_create w (tool_choice_request w (fst (getTools (tools_fetch w) c)) ms)
          = Inr (ch # chs)
      \<and> requested_tool_calls ch = Some calls
      \<and> backend_chat w (backend_body rq ms) = Inr br \<longrightarrow>
        fst (POST w c request) =
          Inr \<lparr>status = 200, headers = [],
               body =
                 (case up_body br of
                    Some rs \<Rightarrow>
                      Stream (TextEncoder_encode (tool_systemMessage calls) # produced rs)
                        (ending rs)
                  | None \<Rightarrow> Stream [TextEncoder_encode (tool_systemMessage calls)] Errored)\<rparr>)
   \<and> (request = Inr rq \<and> req_messages rq = Some ms
      \<and> completions_create w (tool_choice_request w (fst (getTools (tools_fetch w) c)) ms)
          = Inr (ch # chs)
      \<and> requested_tool_calls ch = None
      \<and> completions_stream w (answer_request w ms) = Inr rs' \<longrightarrow>
        fst (POST w c request) =
          Inr \<lparr>status = 200, headers = [],
               body = Stream (TextEncoder_encode direct_systemMessage # produced rs')
                        (ending rs')\<rparr>)
   \<and> (fst (POST w c request) = Inr r \<and> body r = Stream q st \<longrightarrow>
        q \<noteq> []
        \<and> (hd q = TextEncoder_encode direct_systemMessage
           \<or> (\<exists>calls'. calls' \<noteq> [] \<and> hd q = TextEncoder_encode (tool_systemMessage calls'))))
   \<and> (prequest = Inr prq \<and> PYTHON_API_URL pw = Some url \<and> url \<noteq> []
      \<and> api_fetch pw url prq = Inr up \<and> ok up \<and> up_body up = Some rs'' \<longrightarrow>
        body (POST_proxy pw prequest) = Stream (produced rs'') (ending rs''))"
proof (intro conjI impI)
  assume "request = Inr rq \<and> req_messages rq = Some ms \<and> ms \<noteq> []
      \<and> completions_create w (tool_choice_request w (fst (getTools (tools_fetch w) c)) ms)
          = Inr (ch # chs)
      \<and> requested_tool_calls ch = Some calls
      \<and> backend_chat w (backend_body rq ms) = Inr br"
  then have "fst (POST w c request) =
           Inr \<lparr>status = 200, headers = [],
                body = start_stream (tool_systemMessage calls) (up_body br)\<rparr>"
    using POST_tool_path [of request rq ms w c ch chs calls br] by (elim conjE) simp
  then show "fst (POST w c request) =
          Inr \<lparr>status = 200, headers = [],
               body =
                 (case up_body br of
                    Some rs \<Rightarrow>
                      Stream (TextEncoder_encode (tool_systemMessage calls) # produced rs)
                        (ending rs)
                  | None \<Rightarrow> Stream [TextEncoder_encode (tool_systemMessage calls)] Errored)\<rparr>"
    by (simp add: start_stream_eq)
next
  assume "request = Inr rq \<and> req_messages rq = Some ms
      \<and> completions_create w (tool_choice_request w (fst (getTools (tools_fetch w) c)) ms)
          = Inr (ch # chs)
      \<and> requested_tool_calls ch = None
      \<and> completions_stream w (answer_request w ms) = Inr rs'"
  then have "fst (POST w c request) =
           Inr \<lparr>status = 200, headers = [], body = start_stream direct_systemMessage (Some rs')\<rparr>"
    using POST_direct_path [of request rq ms w c ch chs rs'] by (elim conjE) simp
  then show "fst (POST w c request) =
          Inr \<lparr>status = 200, headers = [],
               body = Stream (TextEncoder_encode direct_systemMessage # produced rs')
                        (ending rs')\<rparr>"
    by (simp add: start_stream_eq)
next
  assume b: "fst (POST w c request) = Inr r \<and> body r = Stream q st"
  then have n: "q \<noteq> [] \<and> (hd q = TextEncoder_encode direct_systemMessage
           \<or> (\<exists>calls. calls \<noteq> [] \<and> hd q = TextEncoder_encode (tool_systemMessage calls)))"
    using POST_stream_starts_with_notice [of w c request r q st] by (elim conjE) simp
  from n show "q \<noteq> []" by simp
  from n
  show "hd q = TextEncoder_encode direct_systemMessage
           \<or> (\<exists>calls'. calls' \<noteq> [] \<and> hd q = TextEncoder_encode (tool_systemMessage calls'))"
    by simp
next
  assume "prequest = Inr prq \<and> PYTHON_API_URL pw = Some url \<and> url \<noteq> []
      \<and> api_fetch pw url prq = Inr up \<and> ok up \<and> up_body up = Some rs''"
  then show "body (POST_proxy pw prequest) = Stream (produced rs'') (ending rs'')"
    using POST_proxy_stream [of prequest prq pw url up rs''] by (elim conjE) simp
qed

lemma js_nonempty: "js (c # cs) \<noteq> []"
  by (simp add: js_def)

theorem status_notice_first_then_upstream_order_witness:
  "fst (POST world_two_calls JNull example_request) =
     Inr \<lparr>status = 200, headers = [],
          body = Stream [TextEncoder_encode (tool_systemMessage two_calls), [0x34], [0x32]]
                   Closed\<rparr>
   \<and> fst (POST world_null_body JNull example_request) =
     Inr \<lparr>status = 200, headers = [],
          body = Stream [TextEncoder_encode (tool_systemMessage two_calls)] Errored\<rparr>
   \<and> fst (POST world_direct JNull example_request) =
     Inr \<lparr>status = 200, headers = [],
          body = Stream [TextEncoder_encode direct_systemMessage, [0x68], [0x69]] Closed\<rparr>
   \<and> body (POST_proxy proxy_world_ok example_proxy_request) = Stream [[0x34], [0x32]] Closed
   \<and> (hd [TextEncoder_encode (tool_systemMessage two_calls), [0x34], [0x32]]
         = TextEncoder_encode direct_systemMessage
       \<or> (\<exists>calls'. calls' \<noteq> []
             \<and> hd [TextEncoder_encode (tool_systemMessage two_calls), [0x34], [0x32]]
                 = TextEncoder_encode (tool_systemMessage calls')))"
proof -
  note T = status_notice_first_then_upstream_order
  have rtc: "requested_tool_calls
               \<lparr>choice_message = Some \<lparr>message_content = None, tool_calls = Some two_calls\<rparr>\<rparr>
             = Some two_calls"
    by (simp add: requested_tool_calls_def two_calls_def)
  have rtn: "requested_tool_calls
               \<lparr>choice_message = Some \<lparr>message_content = Some (js ''hi''), tool_calls = None\<rparr>\<rparr>
             = None"
    by (simp add: requested_tool_calls_def)
  have 1: "fst (POST world_two_calls JNull example_request) =
     Inr \<lparr>status = 200, headers = [],
          body = Stream [TextEncoder_encode (tool_systemMessage two_calls), [0x34], [0x32]]
                   Closed\<rparr>"
    using rtc T [where request = example_request and w = world_two_calls and c = JNull
        and ms = example_messages and calls = two_calls and chs = "[]"
        and rq = "\<lparr>req_messages = Some example_messages, req_filePath = Some (js ''/tmp/data.xlsx'')\<rparr>"
        and ch = "\<lparr>choice_message = Some \<lparr>message_content = None, tool_calls = Some two_calls\<rparr>\<rparr>"
        and br = "\<lparr>up_status = 200, up_body = Some [Chunk [0x34], Chunk [0x32], Done]\<rparr>"]
    by (simp add: example_request_def example_messages_def world_two_calls_def)
  have 2: "fst (POST world_null_body JNull example_request) =
     Inr \<lparr>status = 200, headers = [],
          body = Stream [TextEncoder_encode (tool_systemMessage two_calls)] Errored\<rparr>"
    using rtc T [where request = example_request and w = world_null_body and c = JNull
        and ms = example_messages and calls = two_calls and chs = "[]"
        and rq = "\<lparr>req_messages = Some example_messages, req_filePath = Some (js ''/tmp/data.xlsx'')\<rparr>"
        and ch = "\<lparr>choice_message = Some \<lparr>message_content = None, tool_calls = Some two_calls\<rparr>\<rparr>"
        and br = "\<lparr>up_status = 204, up_body = None\<rparr>"]
    by (simp add: example_request_def example_messages_def world_two_calls_def world_null_body_def)
  have 3: "fst (POST world_direct JNull example_request) =
     Inr \<lparr>status = 200, headers = [],
          body = Stream [TextEncoder_encode direct_systemMessage, [0x68], [0x69]] Closed\<rparr>"
    using rtn T [where request = example_request and w = world_direct and c = JNull
        and ms = example_messages and chs = "[]"
        and rq = "\<lparr>req_messages = Some example_messages, req_filePath = Some (js ''/tmp/data.xlsx'')\<rparr>"
        and ch = "\<lparr>choice_message = Some \<lparr>message_content = Some (js ''hi''), tool_calls = None\<rparr>\<rparr>"
        and rs' = "[Chunk [0x68], Chunk [0x69], Done]"]
    by (simp add: example_request_def example_messages_def world_two_calls_def world_direct_def)
  have ok: "ok \<lparr>up_status = 200, up_body = Some [Chunk [0x34], Chunk [0x32], Done]\<rparr>"
    by (simp add: ok_def)
  have 4: "body (POST_proxy proxy_world_ok example_proxy_request) = Stream [[0x34], [0x32]] Closed"
    using ok T [where prequest = example_proxy_request and pw = proxy_world_ok
        and prq = "\<lparr>pr_messages = Some (JArray []), pr_content = Some (JString (js ''how many rows?''))\<rparr>"
        and url = "js ''http://127.0.0.1:8000/api/chat''"
        and up = "\<lparr>up_status = 200, up_body = Some [Chunk [0x34], Chunk [0x32], Done]\<rparr>"
        and rs'' = "[Chunk [0x34], Chunk [0x32], Done]"]
    by (simp add: example_proxy_request_def proxy_world_ok_def js_nonempty)
  have 5: "hd [TextEncoder_encode (tool_systemMessage two_calls), [0x34], [0x32]]
         = TextEncoder_encode direct_systemMessage
       \<or> (\<exists>calls'. calls' \<noteq> []
             \<and> hd [TextEncoder_encode (tool_systemMessage two_calls), [0x34], [0x32]]
                 = TextEncoder_encode (tool_systemMessage calls'))"
    using 1 T [where request = example_request and w = world_two_calls and c = JNull
        and q = "[TextEncoder_encode (tool_systemMessage two_calls), [0x34], [0x32]]"
        and st = Closed
        and r = "\<lparr>status = 200, headers = [],
                 body = Stream [TextEncoder_encode (tool_systemMessage two_calls), [0x34], [0x32]]
                          Closed\<rparr>",
        THEN conjunct2, THEN conjunct2, THEN conjunct1]
    by simp
  from 1 2 3 4 5 show ?thesis by (intro conjI)
qed

lemma requested_two_calls:
  "requested_tool_calls
     \<lparr>choice_message = Some \<lparr>message_content = None, tool_calls = Some two_calls\<rparr>\<rparr>
   = Some two_calls"
  by (simp add: requested_tool_calls_def two_calls_def)

lemma POST_try_thrown:
  "POST_try w c request = (Inl e, c') \<Longrightarrow> POST w c request = (POST_catch e, c')"
  by (simp add: POST_def)

lemma POST_try_cache:
  "snd (POST_try w c request) =
     (case request of Inl e \<Rightarrow> c | Inr rq \<Rightarrow> snd (getTools (tools_fetch w) c))"
  by (simp add: POST_try_def split: sum.splits prod.splits)

lemma POST_try_model_failure:
  assumes "request = Inr rq" and "req_messages rq = Some ms"
    and "completions_create w (tool_choice_request w (fst (getTools (tools_fetch w) c)) ms) = Inl e"
  shows "fst (POST_try w c request) = Inl e"
proof (cases "getTools (tools_fetch w) c")
  case (Pair t c')
  with assms show ?thesis by (simp add: POST_try_def)
qed

lemma POST_try_backend_failure:
  assumes "request = Inr rq" and "req_messages rq = Some ms" and "ms \<noteq> []"
    and "completions_create w (tool_choice_request w (fst (getTools (tools_fetch w) c)) ms)
           = Inr (ch # chs)"
    and "requested_tool_calls ch = Some calls"
    and "backend_chat w (backend_body rq ms) = Inl e"
  shows "fst (POST_try w c request) = Inl e"
proof (cases "getTools (tools_fetch w) c")
  case (Pair t c')
  with assms show ?thesis by (cases ms) (simp_all add: POST_try_def tool_branch_def)
qed

lemma POST_try_stream_failure:
  assumes "request = Inr rq" and "req_messages rq = Some ms"
    and "completions_create w (tool_choice_request w (fst (getTools (tools_fetch w) c)) ms)
           = Inr (ch # chs)"
    and "requested_tool_calls ch = None"
    and "completions_stream w (answer_request w ms) = Inl e"
  shows "fst (POST_try w c request) = Inl e"
proof (cases "getTools (tools_fetch w) c")
  case (Pair t c')
  with assms show ?thesis by (simp add: POST_try_def direct_branch_def)
qed

lemma fst_POST_thrown: "fst (POST_try w c request) = Inl e \<Longrightarrow> fst (POST w c request) = POST_catch e"
  by (cases "POST_try w c request") (simp add: POST_def)

lemma POST_catch_stack: "POST_catch (e\<lparr>stack := tr\<rparr>) = POST_catch e"
  by (simp add: POST_catch_def split: error_kind.splits)

text \<open>
  C2, as stated, fails: the model returns two tool calls for one user turn, and the
  route answers 200 with a stream that names both tools and forwards the backend's
  chunks. Nothing in the route counts the tool calls beyond \<open>length > 0\<close>.
\<close>

theorem two_tool_calls_not_rejected_counterexample:
  "completions_create world_two_calls (tool_choice_request world_two_calls JNull example_messages)
     = Inr [\<lparr>choice_message = Some \<lparr>message_content = None, tool_calls = Some two_calls\<rparr>\<rparr>]
   \<and> length two_calls = 2
   \<and> fst (POST world_two_calls JNull example_request) =
       Inr \<lparr>status = 200, headers = [],
            body = Stream [TextEncoder_encode (tool_systemMessage two_calls), [0x34], [0x32]]
                     Closed\<rparr>"
  by (simp add: POST_def POST_try_def tool_branch_def world_two_calls_def example_request_def
      example_messages_def getTools_def getTools_try_def requested_two_calls backend_body_def
      start_stream_def two_calls_def requested_tool_calls_def)

text \<open>
  C2, amended. For every user turn in which the model returns one or more tool
  calls (the request carrying at least one message, the backend call settling),
  the route does not reject the turn: it sends the backend one chat request, made
  of the last message's content and the file path and so the same whatever the
  number of tool calls, and answers 200 with a stream that starts with one status
  notice naming every requested tool, joined by \<open>, \<close>, followed by the backend's
  chunks.
\<close>

theorem tool_turn_forwarded_for_any_number_of_calls:
  assumes "request = Inr rq" and "req_messages rq = Some ms" and "ms \<noteq> []"
    and "completions_create w (tool_choice_request w (fst (getTools (tools_fetch w) c)) ms)
           = Inr (ch # chs)"
    and "requested_tool_calls ch = Some calls"
    and "backend_chat w (backend_body rq ms) = Inr br"
  shows "fst (POST w c request) =
           Inr \<lparr>status = 200, headers = [],
                body = (case up_body br of
                          Some rs \<Rightarrow>
                            Stream (TextEncoder_encode (tool_systemMessage calls) # produced rs)
                              (ending rs)
                        | None \<Rightarrow>
                            Stream [TextEncoder_encode (tool_systemMessage calls)] Errored)\<rparr>
         \<and> 1 \<le> length calls
         \<and> backend_body rq ms = \<lparr>br_content = content (last ms), br_file_path = req_filePath rq\<rparr>
         \<and> tool_systemMessage calls =
             [0x5B, 0x7CFB, 0x7D71, 0x5D, 0x20, 0x4F7F, 0x7528, 0x5DE5, 0x5177, 0x3A, 0x20]
             @ join (js '', '') (map function_name calls)
             @ [0x20, 0x4F86, 0x8655, 0x7406, 0x60A8, 0x7684, 0x8ACB, 0x6C42, 0x2E, 0x2E, 0x2E,
                0x0A, 0x0A]"
proof -
  have "fst (POST w c request) =
           Inr \<lparr>status = 200, headers = [],
                body = start_stream (tool_systemMessage calls) (up_body br)\<rparr>"
    using assms by (rule POST_tool_path)
  then have 1: "fst (POST w c request) =
           Inr \<lparr>status = 200, headers = [],
                body = (case up_body br of
                          Some rs \<Rightarrow>
                            Stream (TextEncoder_encode (tool_systemMessage calls) # produced rs)
                              (ending rs)
                        | None \<Rightarrow>
                            Stream [TextEncoder_encode (tool_systemMessage calls)] Errored)\<rparr>"
    by (simp add: start_stream_eq)
  have "calls \<noteq> []"
    using assms(5) by (rule requested_tool_calls_nonempty)
  then have 2: "1 \<le> length calls" by (cases calls) simp_all
  have 3: "backend_body rq ms = \<lparr>br_content = content (last ms), br_file_path = req_filePath rq\<rparr>"
    by (simp add: backend_body_def)
  have 4: "tool_systemMessage calls =
             [0x5B, 0x7CFB, 0x7D71, 0x5D, 0x20, 0x4F7F, 0x7528, 0x5DE5, 0x5177, 0x3A, 0x20]
             @ join (js '', '') (map function_name calls)
             @ [0x20, 0x4F86, 0x8655, 0x7406, 0x60A8, 0x7684, 0x8ACB, 0x6C42, 0x2E, 0x2E, 0x2E,
                0x0A, 0x0A]"
    by (simp add: tool_systemMessage_def)
  from 1 2 3 4 show ?thesis by (intro conjI)
qed

theorem tool_turn_forwarded_for_any_number_of_calls_witness:
  "fst (POST world_two_calls JNull example_request) =
     Inr \<lparr>status = 200, headers = [],
          body = Stream [TextEncoder_encode (tool_systemMessage two_calls), [0x34], [0x32]]
                   Closed\<rparr>
   \<and> 1 \<le> length two_calls"
  using requested_two_calls
    tool_turn_forwarded_for_any_number_of_calls [where request = example_request
        and w = world_two_calls and c = JNull and ms = example_messages and calls = two_calls
        and chs = "[]"
        and rq = "\<lparr>req_messages = Some example_messages, req_filePath = Some (js ''/tmp/data.xlsx'')\<rparr>"
        and ch = "\<lparr>choice_message = Some \<lparr>message_content = None, tool_calls = Some two_calls\<rparr>\<rparr>"
        and br = "\<lparr>up_status = 200, up_body = Some [Chunk [0x34], Chunk [0x32], Done]\<rparr>"]
  by (simp add: example_request_def example_messages_def world_two_calls_def)

lemma fst_POST:
  "fst (POST w c request) =
     (case fst (POST_try w c request) of Inr r \<Rightarrow> Inr r | Inl e \<Rightarrow> POST_catch e)"
  by (cases "POST_try w c request") (simp add: POST_def split: sum.splits)

lemma POST_try_tool_branch:
  assumes "request = Inr rq" and "req_messages rq = Some ms"
    and "completions_create w (tool_choice_request w (fst (getTools (tools_fetch w) c)) ms)
           = Inr (ch # chs)"
    and "requested_tool_calls ch = Some calls"
  shows "fst (POST_try w c request) = tool_branch w rq ms calls"
proof (cases "getTools (tools_fetch w) c")
  case (Pair t c')
  with assms show ?thesis by (simp add: POST_try_def)
qed

lemma tool_branch_names:
  assumes "map function_name calls' = map function_name calls"
    and "backend_chat w' = backend_chat w"
  shows "tool_branch w' rq ms calls' = tool_branch w rq ms calls"
proof -
  from assms(1) have "tool_systemMessage calls' = tool_systemMessage calls"
    by (simp add: tool_systemMessage_def)
  with assms(2) show ?thesis
    by (simp add: tool_branch_def cong: list.case_cong sum.case_cong)
qed

text \<open>
  C3, as stated, fails: the route's \<open>tools\<close> declare \<open>filePath\<close> and \<open>query\<close> as the
  required fields of \<open>analyzeExcel\<close>; the model asks for \<open>analyzeExcel\<close> with the
  arguments \<open>{}\<close>, which hold neither. The turn is not rejected: the route answers
  200, names the tool in its notice and forwards the backend's answer, exactly as
  it does when both fields are given.
\<close>

theorem tool_call_missing_required_fields_counterexample:
  "tool_name analyzeExcel = js ''analyzeExcel''
   \<and> required (parameters analyzeExcel) = [js ''filePath'', js ''query'']
   \<and> call_without_arguments =
       [\<lparr>function_name = js ''analyzeExcel'', function_arguments = js ''{}''\<rparr>]
   \<and> fst (POST (world_one_call call_without_arguments) JNull example_request) =
       Inr \<lparr>status = 200, headers = [],
            body = Stream [TextEncoder_encode (tool_systemMessage call_without_arguments),
                           [0x34], [0x32]] Closed\<rparr>
   \<and> fst (POST (world_one_call call_without_arguments) JNull example_request) =
       fst (POST (world_one_call call_with_arguments) JNull example_request)"
proof -
  have 1: "tool_name analyzeExcel = js ''analyzeExcel''"
    by (simp add: analyzeExcel_def)
  have 2: "required (parameters analyzeExcel) = [js ''filePath'', js ''query'']"
    by (simp add: analyzeExcel_def)
  have 3: "call_without_arguments =
       [\<lparr>function_name = js ''analyzeExcel'', function_arguments = js ''{}''\<rparr>]"
    by (simp add: call_without_arguments_def)
  have n: "tool_systemMessage call_with_arguments = tool_systemMessage call_without_arguments"
    by (simp add: tool_systemMessage_def call_with_arguments_def call_without_arguments_def)
  have 4: "fst (POST (world_one_call call_without_arguments) JNull example_request) =
       Inr \<lparr>status = 200, headers = [],
            body = Stream [TextEncoder_encode (tool_systemMessage call_without_arguments),
                           [0x34], [0x32]] Closed\<rparr>"
    by (simp add: POST_def POST_try_def tool_branch_def world_one_call_def world_two_calls_def
        example_request_def example_messages_def getTools_def getTools_try_def backend_body_def
        start_stream_def requested_tool_calls_def call_without_arguments_def)
  have 5: "fst (POST (world_one_call call_with_arguments) JNull example_request) =
       Inr \<lparr>status = 200, headers = [],
            body = Stream [TextEncoder_encode (tool_systemMessage call_with_arguments),
                           [0x34], [0x32]] Closed\<rparr>"
    by (simp add: POST_def POST_try_def tool_branch_def world_one_call_def world_two_calls_def
        example_request_def example_messages_def getTools_def getTools_try_def backend_body_def
        start_stream_def requested_tool_calls_def call_with_arguments_def)
  from 1 2 3 4 5 n show ?thesis by simp
qed

text \<open>
  C3, amended. Neither the chat route nor the \<open>ToolRegistry\<close> checks the arguments
  of a tool call against a schema, and neither has a dispatch step. The chat route
  reads of the model's tool calls only their names: two tool turns on the same request whose calls bear the
  same names, whatever their arguments, and whose backend answers alike get the
  same outcome; when the backend call settles this is the 200 response whose
  stream starts with the notice naming the tools and forwards the backend's
  chunks. The \<open>ToolRegistry\<close> stores a tool under its name and hands it back as it
  was registered; it never looks at a call, its arguments or the tool's
  \<open>inputSchema\<close>.
\<close>

theorem tool_turn_ignores_call_arguments:
  "(request = Inr rq \<and> req_messages rq = Some ms
      \<and> completions_create w (tool_choice_request w (fst (getTools (tools_fetch w) c)) ms)
          = Inr (ch # chs)
      \<and> requested_tool_calls ch = Some calls
      \<and> completions_create w' (tool_choice_request w' (fst (getTools (tools_fetch w') c')) ms)
          = Inr (ch' # chs')
      \<and> requested_tool_calls ch' = Some calls'
      \<and> map function_name calls' = map function_name calls
      \<and> backend_chat w' = backend_chat w \<longrightarrow>
        fst (POST w' c' request) = fst (POST w c request))
   \<and> (request = Inr rq \<and> req_messages rq = Some ms \<and> ms \<noteq> []
      \<and> completions_create w (tool_choice_request w (fst (getTools (tools_fetch w) c)) ms)
          = Inr (ch # chs)
      \<and> requested_tool_calls ch = Some calls
      \<and> backend_chat w (backend_body rq ms) = Inr br \<longrightarrow>
        fst (POST w c request) =
          Inr \<lparr>status = 200, headers = [],
               body =
                 (case up_body br of
                    Some rs \<Rightarrow>
                      Stream (TextEncoder_encode (tool_systemMessage calls) # produced rs)
                        (ending rs)
                  | None \<Rightarrow> Stream [TextEncoder_encode (tool_systemMessage calls)] Errored)\<rparr>
        \<and> tool_systemMessage calls =
            [0x5B, 0x7CFB, 0x7D71, 0x5D, 0x20, 0x4F7F, 0x7528, 0x5DE5, 0x5177, 0x3A, 0x20]
            @ join (js '', '') (map function_name calls)
            @ [0x20, 0x4F86, 0x8655, 0x7406, 0x60A8, 0x7684, 0x8ACB, 0x6C42, 0x2E, 0x2E, 0x2E,
               0x0A, 0x0A])
   \<and> get n (register t r) = (if name t = n then Some t else get n r)
   \<and> list_tools (register t new_ToolRegistry) = [t]"
proof -
  have 1: "fst (POST w' c' request) = fst (POST w c request)"
    if "request = Inr rq" "req_messages rq = Some ms"
      "completions_create w (tool_choice_request w (fst (getTools (tools_fetch w) c)) ms)
          = Inr (ch # chs)"
      "requested_tool_calls ch = Some calls"
      "completions_create w' (tool_choice_request w' (fst (getTools (tools_fetch w') c')) ms)
          = Inr (ch' # chs')"
      "requested_tool_calls ch' = Some calls'"
      "map function_name calls' = map function_name calls"
      "backend_chat w' = backend_chat w"
  proof -
    have "fst (POST_try w c request) = tool_branch w rq ms calls"
      using that(1-4) by (rule POST_try_tool_branch)
    moreover have "fst (POST_try w' c' request) = tool_branch w' rq ms calls'"
      using that(1,2,5,6) by (rule POST_try_tool_branch)
    moreover have "tool_branch w' rq ms calls' = tool_branch w rq ms calls"
      using that(7,8) by (rule tool_branch_names)
    ultimately show ?thesis by (simp add: fst_POST)
  qed
  have 2: "fst (POST w c request) =
          Inr \<lparr>status = 200, headers = [],
               body =
                 (case up_body br of
                    Some rs \<Rightarrow>
                      Stream (TextEncoder_encode (tool_systemMessage calls) # produced rs)
                        (ending rs)
                  | None \<Rightarrow> Stream [TextEncoder_encode (tool_systemMessage calls)] Errored)\<rparr>"
    if "request = Inr rq" "req_messages rq = Some ms" "ms \<noteq> []"
      "completions_create w (tool_choice_request w (fst (getTools (tools_fetch w) c)) ms)
          = Inr (ch # chs)"
      "requested_tool_calls ch = Some calls"
      "backend_chat w (backend_body rq ms) = Inr br"
    using POST_tool_path [OF that] by (simp add: start_stream_eq)
  have 3: "tool_systemMessage calls =
            [0x5B, 0x7CFB, 0x7D71, 0x5D, 0x20, 0x4F7F, 0x7528, 0x5DE5, 0x5177, 0x3A, 0x20]
            @ join (js '', '') (map function_name calls)
            @ [0x20, 0x4F86, 0x8655, 0x7406, 0x60A8, 0x7684, 0x8ACB, 0x6C42, 0x2E, 0x2E, 0x2E,
               0x0A, 0x0A]"
    by (simp add: tool_systemMessage_def)
  have 4: "get n (register t r) = (if name t = n then Some t else get n r)"
    by (rule get_register)
  have 5: "list_tools (register t new_ToolRegistry) = [t]"
    by (simp add: list_tools_def register_def new_ToolRegistry_def Map_values_def)
  from 1 2 3 4 5 show ?thesis by (intro conjI impI) (elim conjE, simp)+
qed

theorem tool_turn_ignores_call_arguments_witness:
  "map function_name call_with_arguments = map function_name call_without_arguments
   \<and> map function_arguments call_with_arguments \<noteq> map function_arguments call_without_arguments
   \<and> fst (POST (world_one_call call_without_arguments) JNull example_request) =
       fst (POST (world_one_call call_with_arguments) (JArray []) example_request)
   \<and> fst (POST (world_one_call call_without_arguments) JNull example_request) =
       Inr \<lparr>status = 200, headers = [],
            body = Stream [TextEncoder_encode (tool_systemMessage call_without_arguments),
                           [0x34], [0x32]] Closed\<rparr>
   \<and> get (js ''excelAnalyzer'') (register (excelAnalyzer xlsx_two_rows) new_ToolRegistry) =
       Some (excelAnalyzer xlsx_two_rows)
   \<and> handler (excelAnalyzer xlsx_two_rows) = excelAnalyzer_handler xlsx_two_rows
   \<and> list_tools (register (excelAnalyzer xlsx_two_rows) new_ToolRegistry) =
       [excelAnalyzer xlsx_two_rows]"
proof -
  note T = tool_turn_ignores_call_arguments
  let ?rq = "\<lparr>req_messages = Some example_messages, req_filePath = Some (js ''/tmp/data.xlsx'')\<rparr>"
  let ?ch = "\<lambda>calls. \<lparr>choice_message = Some \<lparr>message_content = None, tool_calls = Some calls\<rparr>\<rparr>"
  have n: "map function_name call_with_arguments = map function_name call_without_arguments"
    by (simp add: call_with_arguments_def call_without_arguments_def)
  have a: "map function_arguments call_with_arguments
             \<noteq> map function_arguments call_without_arguments"
    by (simp add: call_with_arguments_def call_without_arguments_def js_def)
  have r0: "requested_tool_calls (?ch call_without_arguments) = Some call_without_arguments"
    by (simp add: requested_tool_calls_def call_without_arguments_def)
  have r1: "requested_tool_calls (?ch call_with_arguments) = Some call_with_arguments"
    by (simp add: requested_tool_calls_def call_with_arguments_def)
  have 1: "fst (POST (world_one_call call_without_arguments) JNull example_request) =
       fst (POST (world_one_call call_with_arguments) (JArray []) example_request)"
    using n r0 r1
      T [where request = example_request and rq = ?rq and ms = example_messages
          and w = "world_one_call call_with_arguments" and c = "JArray []"
          and ch = "?ch call_with_arguments" and chs = "[]" and calls = call_with_arguments
          and w' = "world_one_call call_without_arguments" and c' = JNull
          and ch' = "?ch call_without_arguments" and chs' = "[]"
          and calls' = call_without_arguments, THEN conjunct1]
    by (simp add: example_request_def world_one_call_def)
  have 2: "fst (POST (world_one_call call_without_arguments) JNull example_request) =
       Inr \<lparr>status = 200, headers = [],
            body = Stream [TextEncoder_encode (tool_systemMessage call_without_arguments),
                           [0x34], [0x32]] Closed\<rparr>"
    using r0
      T [where request = example_request and rq = ?rq and ms = example_messages
          and w = "world_one_call call_without_arguments" and c = JNull
          and ch = "?ch call_without_arguments" and chs = "[]" and calls = call_without_arguments
          and br = "\<lparr>up_status = 200, up_body = Some [Chunk [0x34], Chunk [0x32], Done]\<rparr>",
        THEN conjunct2, THEN conjunct1]
    by (simp add: example_request_def example_messages_def world_one_call_def world_two_calls_def)
  have 3: "get (js ''excelAnalyzer'') (register (excelAnalyzer xlsx_two_rows) new_ToolRegistry) =
       Some (excelAnalyzer xlsx_two_rows)"
    using T [where t = "excelAnalyzer xlsx_two_rows" and n = "js ''excelAnalyzer''"
        and r = new_ToolRegistry, THEN conjunct2, THEN conjunct2, THEN conjunct1]
    by (simp add: excelAnalyzer_def)
  have 4: "handler (excelAnalyzer xlsx_two_rows) = excelAnalyzer_handler xlsx_two_rows"
    by (simp add: excelAnalyzer_def)
  have 5: "list_tools (register (excelAnalyzer xlsx_two_rows) new_ToolRegistry) =
       [excelAnalyzer xlsx_two_rows]"
    using T [where t = "excelAnalyzer xlsx_two_rows", THEN conjunct2, THEN conjunct2,
        THEN conjunct2]
    by simp
  from n a 1 2 3 4 5 show ?thesis by (intro conjI)
qed

lemma POST_catch_APIError:
  assumes "kind e = APIError (Some n)" and "200 \<le> n" and "n \<le> 599"
    and "n \<notin> {204, 205, 304}"
  shows "POST_catch e =
           Inr \<lparr>status = n, headers = [(js ''content-type'', js ''text/plain;charset=UTF-8'')],
                body = Text (message e)\<rparr>"
  using assms by (simp add: POST_catch_def new_Response_text_def)

lemma POST_catch_other:
  assumes "kind e = TypeError \<or> kind e = OtherError"
  shows "POST_catch e =
           Inr \<lparr>status = 500, headers = [(js ''content-type'', js ''text/plain;charset=UTF-8'')],
                body = Text (js ''An error occurred'')\<rparr>"
  using assms by (auto simp: POST_catch_def new_Response_text_def)

lemma POST_proxy_thrown:
  "POST_proxy_try pw prequest = Inl e \<Longrightarrow>
   POST_proxy pw prequest =
     \<lparr>status = 500, headers = [(js ''content-type'', js ''application/json'')],
      body = Json (JObject [(js ''error'', JString (js ''Internal Server Error''))])\<rparr>"
  by (simp add: POST_proxy_def)

text \<open>
  C7, as stated, fails: in a tool turn a read of the backend's body rejects after
  the first chunk. The response has been returned by then, so the turn ends with
  status 200 and an errored stream holding the status notice and that chunk, not
  with an error response that carries a reason. The same happens when the backend
  answers without a body (status 204) and \<open>backendResponse.body!.getReader()\<close>
  throws inside \<open>start\<close>.
\<close>

theorem fault_while_streaming_counterexample:
  "POST world_read_rejected JNull example_request =
     (Inr \<lparr>status = 200, headers = [],
           body = Stream [TextEncoder_encode (tool_systemMessage two_calls), [0x34]] Errored\<rparr>,
      JNull)
   \<and> POST world_null_body JNull example_request =
     (Inr \<lparr>status = 200, headers = [],
           body = Stream [TextEncoder_encode (tool_systemMessage two_calls)] Errored\<rparr>,
      JNull)"
  by (simp add: POST_def POST_try_def tool_branch_def world_two_calls_def world_null_body_def
      world_read_rejected_def example_request_def example_messages_def getTools_def
      getTools_try_def requested_two_calls start_stream_def)

text \<open>
  C7, amended. Every failure raised in the chat route before it returns its
  streaming response is handed to the \<open>catch\<close> block, and the module state after
  the failed turn is what \<open>getTools\<close> left (untouched when the request body could
  not be read), so the next turn starts as after a successful one. Such failures
  are: the request body not parsing, \<open>messages\<close> missing, either model call
  failing, and the backend call failing. The \<open>catch\<close> block answers an error that
  is not an OpenAI \<open>APIError\<close> with the fixed text \<open>An error occurred\<close> under status
  500, and an \<open>APIError\<close> whose status lies in 200 to 599 and is none of 204, 205
  and 304 with the error's message under that status, both as plain text; what it
  does never depends on the error's stack. The forwarding route answers every
  error thrown before it returns its stream with status 500 and the JSON body
  \<open>{ error: 'Internal Server Error' }\<close>, whatever the error. A read that rejects
  while the stream is being filled errors the stream that has already been
  returned, after the chunks forwarded so far.
\<close>

theorem failure_before_streaming_single_error_response:
  "(POST_try w c request = (Inl e, c') \<longrightarrow>
      POST w c request = (POST_catch e, c')
      \<and> c' = (case request of Inl _ \<Rightarrow> c | Inr _ \<Rightarrow> snd (getTools (tools_fetch w) c)))
   \<and> (kind e = APIError (Some n) \<and> 200 \<le> n \<and> n \<le> 599 \<and> n \<notin> {204, 205, 304} \<longrightarrow>
        POST_catch e =
          Inr \<lparr>status = n, headers = [(js ''content-type'', js ''text/plain;charset=UTF-8'')],
               body = Text (message e)\<rparr>)
   \<and> (kind e = TypeError \<or> kind e = OtherError \<longrightarrow>
        POST_catch e =
          Inr \<lparr>status = 500, headers = [(js ''content-type'', js ''text/plain;charset=UTF-8'')],
               body = Text (js ''An error occurred'')\<rparr>)
   \<and> POST_catch (e\<lparr>stack := tr\<rparr>) = POST_catch e
   \<and> (request = Inl e \<longrightarrow> POST_try w c request = (Inl e, c))
   \<and> (request = Inr rq \<and> req_messages rq = None \<longrightarrow>
        fst (POST w c request) =
          Inr \<lparr>status = 500, headers = [(js ''content-type'', js ''text/plain;charset=UTF-8'')],
               body = Text (js ''An error occurred'')\<rparr>)
   \<and> (request = Inr rq \<and> req_messages rq = Some ms
      \<and> completions_create w (tool_choice_request w (fst (getTools (tools_fetch w) c)) ms) = Inl e
      \<longrightarrow> fst (POST_try w c request) = Inl e)
   \<and> (request = Inr rq \<and> req_messages rq = Some ms \<and> ms \<noteq> []
      \<and> completions_create w (tool_choice_request w (fst (getTools (tools_fetch w) c)) ms)
          = Inr (ch # chs)
      \<and> requested_tool_calls ch = Some calls
      \<and> backend_chat w (backend_body rq ms) = Inl e
      \<longrightarrow> fst (POST_try w c request) = Inl e)
   \<and> (request = Inr rq \<and> req_messages rq = Some ms
      \<and> completions_create w (tool_choice_request w (fst (getTools (tools_fetch w) c)) ms)
          = Inr (ch # chs)
      \<and> requested_tool_calls ch = None
      \<and> completions_stream w (answer_request w ms) = Inl e
      \<longrightarrow> fst (POST_try w c request) = Inl e)
   \<and> (request = Inr rq \<and> req_messages rq = Some ms \<and> ms \<noteq> []
      \<and> completions_create w (tool_choice_request w (fst (getTools (tools_fetch w) c)) ms)
          = Inr (ch # chs)
      \<and> requested_tool_calls ch = Some calls
      \<and> backend_chat w (backend_body rq ms) = Inr br
      \<and> up_body br = Some rs \<and> ending rs = Errored
      \<longrightarrow> fst (POST w c request) =
            Inr \<lparr>status = 200, headers = [],
                 body = Stream (TextEncoder_encode (tool_systemMessage calls) # produced rs)
                          Errored\<rparr>)
   \<and> (request = Inr rq \<and> req_messages rq = Some ms
      \<and> completions_create w (tool_choice_request w (fst (getTools (tools_fetch w) c)) ms)
          = Inr (ch # chs)
      \<and> requested_tool_calls ch = None
      \<and> completions_stream w (answer_request w ms) = Inr rs \<and> ending rs = Errored
      \<longrightarrow> fst (POST w c request) =
            Inr \<lparr>status = 200, headers = [],
                 body = Stream (TextEncoder_encode direct_systemMessage # produced rs) Errored\<rparr>)
   \<and> (POST_proxy_try pw prequest = Inl e \<longrightarrow>
        POST_proxy pw prequest =
          \<lparr>status = 500, headers = [(js ''content-type'', js ''application/json'')],
           body = Json (JObject [(js ''error'', JString (js ''Internal Server Error''))])\<rparr>)"
proof -
  have 1: "POST_try w c request = (Inl e, c') \<longrightarrow>
      POST w c request = (POST_catch e, c')
      \<and> c' = (case request of Inl _ \<Rightarrow> c | Inr _ \<Rightarrow> snd (getTools (tools_fetch w) c))"
    using POST_try_cache [of w c request] by (auto simp: POST_try_thrown)
  have 2: "kind e = APIError (Some n) \<and> 200 \<le> n \<and> n \<le> 599 \<and> n \<notin> {204, 205, 304} \<longrightarrow>
        POST_catch e =
          Inr \<lparr>status = n, headers = [(js ''content-type'', js ''text/plain;charset=UTF-8'')],
               body = Text (message e)\<rparr>"
    using POST_catch_APIError [of e n] by blast
  have 3: "kind e = TypeError \<or> kind e = OtherError \<longrightarrow>
        POST_catch e =
          Inr \<lparr>status = 500, headers = [(js ''content-type'', js ''text/plain;charset=UTF-8'')],
               body = Text (js ''An error occurred'')\<rparr>"
    using POST_catch_other [of e] by blast
  have 4: "POST_catch (e\<lparr>stack := tr\<rparr>) = POST_catch e"
    by (rule POST_catch_stack)
  have 5: "request = Inl e \<longrightarrow> POST_try w c request = (Inl e, c)"
    by (simp add: POST_try_def)
  have 6: "request = Inr rq \<and> req_messages rq = None \<longrightarrow>
        fst (POST w c request) =
          Inr \<lparr>status = 500, headers = [(js ''content-type'', js ''text/plain;charset=UTF-8'')],
               body = Text (js ''An error occurred'')\<rparr>"
    by (cases "getTools (tools_fetch w) c")
      (simp add: POST_def POST_try_def POST_catch_other new_TypeError_def)
  have 7: "request = Inr rq \<and> req_messages rq = Some ms
      \<and> completions_create w (tool_choice_request w (fst (getTools (tools_fetch w) c)) ms) = Inl e
      \<longrightarrow> fst (POST_try w c request) = Inl e"
    using POST_try_model_failure [of request rq ms w c e] by simp
  have 8: "request = Inr rq \<and> req_messages rq = Some ms \<and> ms \<noteq> []
      \<and> completions_create w (tool_choice_request w (fst (getTools (tools_fetch w) c)) ms)
          = Inr (ch # chs)
      \<and> requested_tool_calls ch = Some calls
      \<and> backend_chat w (backend_body rq ms) = Inl e
      \<longrightarrow> fst (POST_try w c request) = Inl e"
    using POST_try_backend_failure [of request rq ms w c ch chs calls e] by simp
  have 9: "request = Inr rq \<and> req_messages rq = Some ms
      \<and> completions_create w (tool_choice_request w (fst (getTools (tools_fetch w) c)) ms)
          = Inr (ch # chs)
      \<and> requested_tool_calls ch = None
      \<and> completions_stream w (answer_request w ms) = Inl e
      \<longrightarrow> fst (POST_try w c request) = Inl e"
    using POST_try_stream_failure [of request rq ms w c ch chs e] by simp
  have 10: "request = Inr rq \<and> req_messages rq = Some ms \<and> ms \<noteq> []
      \<and> completions_create w (tool_choice_request w (fst (getTools (tools_fetch w) c)) ms)
          = Inr (ch # chs)
      \<and> requested_tool_calls ch = Some calls
      \<and> backend_chat w (backend_body rq ms) = Inr br
      \<and> up_body br = Some rs \<and> ending rs = Errored
      \<longrightarrow> fst (POST w c request) =
            Inr \<lparr>status = 200, headers = [],
                 body = Stream (TextEncoder_encode (tool_systemMessage calls) # produced rs)
                          Errored\<rparr>"
    using POST_tool_path [of request rq ms w c ch chs calls br]
    by (simp add: start_stream_eq)
  have 11: "request = Inr rq \<and> req_messages rq = Some ms
      \<and> completions_create w (tool_choice_request w (fst (getTools (tools_fetch w) c)) ms)
          = Inr (ch # chs)
      \<and> requested_tool_calls ch = None
      \<and> completions_stream w (answer_request w ms) = Inr rs \<and> ending rs = Errored
      \<longrightarrow> fst (POST w c request) =
            Inr \<lparr>status = 200, headers = [],
                 body = Stream (TextEncoder_encode direct_systemMessage # produced rs) Errored\<rparr>"
    using POST_direct_path [of request rq ms w c ch chs rs]
    by (simp add: start_stream_eq)
  have 12: "POST_proxy_try pw prequest = Inl e \<longrightarrow>
        POST_proxy pw prequest =
          \<lparr>status = 500, headers = [(js ''content-type'', js ''application/json'')],
           body = Json (JObject [(js ''error'', JString (js ''Internal Server Error''))])\<rparr>"
    using POST_proxy_thrown [of pw prequest e] by blast
  from 1 2 3 4 5 6 7 8 9 10 11 12 show ?thesis by (intro conjI)
qed

lemma getTools_down: "getTools (Inl e) JNull = (JNull, JNull)"
  by (simp add: getTools_def getTools_try_def)

theorem failure_before_streaming_single_error_response_witness:
  "POST world_backend_down JNull example_request =
     (Inr \<lparr>status = 500, headers = [(js ''content-type'', js ''text/plain;charset=UTF-8'')],
           body = Text (js ''An error occurred'')\<rparr>, JNull)
   \<and> POST world_model_429 JNull example_request =
     (Inr \<lparr>status = 429, headers = [(js ''content-type'', js ''text/plain;charset=UTF-8'')],
           body = Text (js ''429 Rate limit reached'')\<rparr>, JNull)
   \<and> POST world_two_calls (JArray []) (Inl (new_Error (js ''Unexpected end of JSON input''))) =
     (Inr \<lparr>status = 500, headers = [(js ''content-type'', js ''text/plain;charset=UTF-8'')],
           body = Text (js ''An error occurred'')\<rparr>, JArray [])
   \<and> fst (POST world_two_calls JNull (Inr \<lparr>req_messages = None, req_filePath = None\<rparr>)) =
     Inr \<lparr>status = 500, headers = [(js ''content-type'', js ''text/plain;charset=UTF-8'')],
          body = Text (js ''An error occurred'')\<rparr>
   \<and> POST_catch (rate_limit_error\<lparr>stack := []\<rparr>) = POST_catch rate_limit_error
   \<and> fst (POST world_read_rejected JNull example_request) =
     Inr \<lparr>status = 200, headers = [],
          body = Stream [TextEncoder_encode (tool_systemMessage two_calls), [0x34]] Errored\<rparr>
   \<and> fst (POST (world_direct\<lparr>completions_stream :=
                    (\<lambda>_. Inr [Chunk [0x68], ReadRejected (new_TypeError (js ''terminated''))])\<rparr>)
              JNull example_request) =
     Inr \<lparr>status = 200, headers = [],
          body = Stream [TextEncoder_encode direct_systemMessage, [0x68]] Errored\<rparr>
   \<and> fst (POST_try (world_direct\<lparr>completions_stream := (\<lambda>_. Inl rate_limit_error)\<rparr>)
              JNull example_request) = Inl rate_limit_error
   \<and> POST_proxy proxy_world_down example_proxy_request =
     \<lparr>status = 500, headers = [(js ''content-type'', js ''application/json'')],
      body = Json (JObject [(js ''error'', JString (js ''Internal Server Error''))])\<rparr>"
proof -
  note T = failure_before_streaming_single_error_response
  let ?rq = "\<lparr>req_messages = Some example_messages, req_filePath = Some (js ''/tmp/data.xlsx'')\<rparr>"
  let ?ch = "\<lparr>choice_message = Some \<lparr>message_content = None, tool_calls = Some two_calls\<rparr>\<rparr>"
  let ?down = "new_TypeError (js ''fetch failed'')"
  let ?bad = "new_Error (js ''Unexpected end of JSON input'')"
  have "fst (POST_try world_backend_down JNull example_request) = Inl ?down"
    using requested_two_calls
      T [where request = example_request and w = world_backend_down and c = JNull and rq = ?rq
          and ms = example_messages and ch = ?ch and chs = "[]" and calls = two_calls
          and e = ?down]
    by (simp add: example_request_def example_messages_def world_two_calls_def
        world_backend_down_def)
  moreover have "snd (POST_try world_backend_down JNull example_request) = JNull"
    by (simp add: POST_try_cache example_request_def world_backend_down_def world_two_calls_def
        getTools_down)
  ultimately have "POST_try world_backend_down JNull example_request = (Inl ?down, JNull)"
    by (simp add: prod_eq_iff)
  then have 1: "POST world_backend_down JNull example_request =
     (Inr \<lparr>status = 500, headers = [(js ''content-type'', js ''text/plain;charset=UTF-8'')],
           body = Text (js ''An error occurred'')\<rparr>, JNull)"
    using T [where request = example_request and w = world_backend_down and c = JNull
        and e = ?down and c' = JNull]
    by (simp add: new_TypeError_def)
  have "fst (POST_try world_model_429 JNull example_request) = Inl rate_limit_error"
    using T [where request = example_request and w = world_model_429 and c = JNull and rq = ?rq
        and ms = example_messages and e = rate_limit_error]
    by (simp add: example_request_def world_two_calls_def world_model_429_def)
  moreover have "snd (POST_try world_model_429 JNull example_request) = JNull"
    by (simp add: POST_try_cache example_request_def world_model_429_def world_two_calls_def
        getTools_down)
  ultimately have "POST_try world_model_429 JNull example_request = (Inl rate_limit_error, JNull)"
    by (simp add: prod_eq_iff)
  then have 2: "POST world_model_429 JNull example_request =
     (Inr \<lparr>status = 429, headers = [(js ''content-type'', js ''text/plain;charset=UTF-8'')],
           body = Text (js ''429 Rate limit reached'')\<rparr>, JNull)"
    using T [where request = example_request and w = world_model_429 and c = JNull
        and e = rate_limit_error and c' = JNull and n = 429]
    by (simp add: rate_limit_error_def)
  have 3: "POST world_two_calls (JArray []) (Inl ?bad) =
     (Inr \<lparr>status = 500, headers = [(js ''content-type'', js ''text/plain;charset=UTF-8'')],
           body = Text (js ''An error occurred'')\<rparr>, JArray [])"
    using T [where request = "Inl ?bad" and w = world_two_calls and c = "JArray []"
        and e = ?bad and c' = "JArray []"]
    by (simp add: new_Error_def)
  have 4: "fst (POST world_two_calls JNull (Inr \<lparr>req_messages = None, req_filePath = None\<rparr>)) =
     Inr \<lparr>status = 500, headers = [(js ''content-type'', js ''text/plain;charset=UTF-8'')],
          body = Text (js ''An error occurred'')\<rparr>"
    using T [where request = "Inr \<lparr>req_messages = None, req_filePath = None\<rparr>"
        and w = world_two_calls and c = JNull and rq = "\<lparr>req_messages = None, req_filePath = None\<rparr>"]
    by simp
  have 5: "POST_catch (rate_limit_error\<lparr>stack := []\<rparr>) = POST_catch rate_limit_error"
    using T [where e = rate_limit_error and tr = "[]"] by simp
  have 6: "fst (POST world_read_rejected JNull example_request) =
     Inr \<lparr>status = 200, headers = [],
          body = Stream [TextEncoder_encode (tool_systemMessage two_calls), [0x34]] Errored\<rparr>"
    using requested_two_calls
      T [where request = example_request and w = world_read_rejected and c = JNull and rq = ?rq
          and ms = example_messages and ch = ?ch and chs = "[]" and calls = two_calls
          and br = "\<lparr>up_status = 200,
                     up_body = Some [Chunk [0x34], ReadRejected (new_TypeError (js ''terminated''))]\<rparr>"
          and rs = "[Chunk [0x34], ReadRejected (new_TypeError (js ''terminated''))]",
        THEN conjunct2, THEN conjunct2, THEN conjunct2, THEN conjunct2, THEN conjunct2,
        THEN conjunct2, THEN conjunct2, THEN conjunct2, THEN conjunct2, THEN conjunct1]
    by (simp add: example_request_def example_messages_def world_two_calls_def
        world_read_rejected_def)
  let ?wd = "world_direct\<lparr>completions_stream :=
                    (\<lambda>_. Inr [Chunk [0x68], ReadRejected (new_TypeError (js ''terminated''))])\<rparr>"
  let ?cd = "\<lparr>choice_message = Some \<lparr>message_content = Some (js ''hi''), tool_calls = None\<rparr>\<rparr>"
  have rn: "requested_tool_calls ?cd = None"
    by (simp add: requested_tool_calls_def)
  have 7: "fst (POST ?wd JNull example_request) =
     Inr \<lparr>status = 200, headers = [],
          body = Stream [TextEncoder_encode direct_systemMessage, [0x68]] Errored\<rparr>"
    using rn
      T [where request = example_request and w = ?wd and c = JNull and rq = ?rq
          and ms = example_messages and ch = ?cd and chs = "[]"
          and rs = "[Chunk [0x68], ReadRejected (new_TypeError (js ''terminated''))]",
        THEN conjunct2, THEN conjunct2, THEN conjunct2, THEN conjunct2, THEN conjunct2,
        THEN conjunct2, THEN conjunct2, THEN conjunct2, THEN conjunct2, THEN conjunct2,
        THEN conjunct1]
    by (simp add: example_request_def example_messages_def world_two_calls_def
        world_direct_def)
  let ?ws = "world_direct\<lparr>completions_stream := (\<lambda>_. Inl rate_limit_error)\<rparr>"
  have 8: "fst (POST_try ?ws JNull example_request) = Inl rate_limit_error"
    using rn
      T [where request = example_request and w = ?ws and c = JNull and rq = ?rq
          and ms = example_messages and ch = ?cd and chs = "[]" and e = rate_limit_error,
        THEN conjunct2, THEN conjunct2, THEN conjunct2, THEN conjunct2, THEN conjunct2,
        THEN conjunct2, THEN conjunct2, THEN conjunct2, THEN conjunct1]
    by (simp add: example_request_def example_messages_def world_two_calls_def
        world_direct_def)
  have "POST_proxy_try proxy_world_down example_proxy_request = Inl ?down"
    by (simp add: POST_proxy_try_def proxy_world_down_def proxy_world_ok_def
        example_proxy_request_def js_nonempty)
  then have 9: "POST_proxy proxy_world_down example_proxy_request =
     \<lparr>status = 500, headers = [(js ''content-type'', js ''application/json'')],
      body = Json (JObject [(js ''error'', JString (js ''Internal Server Error''))])\<rparr>"
    using T [where pw = proxy_world_down and prequest = example_proxy_request and e = ?down,
        THEN conjunct2, THEN conjunct2, THEN conjunct2, THEN conjunct2, THEN conjunct2,
        THEN conjunct2, THEN conjunct2, THEN conjunct2, THEN conjunct2, THEN conjunct2,
        THEN conjunct2]
    by simp
  from 1 2 3 4 5 6 7 8 9 show ?thesis by (intro conjI)
qed

lemma tool_choice_request_tools_fetch:
  "tool_choice_request (w\<lparr>tools_fetch := x\<rparr>) t ms = tool_choice_request w t ms"
  by (simp add: tool_choice_request_def model_name_def)

lemma tool_branch_tools_fetch:
  "tool_branch (w\<lparr>tools_fetch := x\<rparr>) rq ms calls = tool_branch w rq ms calls"
  by (simp add: tool_branch_def cong: list.case_cong)

lemma direct_branch_tools_fetch:
  "direct_branch (w\<lparr>tools_fetch := x\<rparr>) ms = direct_branch w ms"
  by (simp add: direct_branch_def answer_request_def model_name_def)

lemma POST_try_tools_fetch:
  assumes "fst (getTools x c) = fst (getTools y c)"
  shows "fst (POST_try (w\<lparr>tools_fetch := x\<rparr>) c request)
         = fst (POST_try (w\<lparr>tools_fetch := y\<rparr>) c request)"
proof (cases request)
  case (Inl e')
  then show ?thesis by (simp add: POST_try_def)
next
  case (Inr rq)
  obtain t cx where gx: "getTools x c = (t, cx)" by (cases "getTools x c")
  with assms obtain cy where gy: "getTools y c = (t, cy)" by (cases "getTools y c") simp
  from Inr gx gy show ?thesis
    by (simp add: POST_try_def tool_choice_request_tools_fetch tool_branch_tools_fetch
        direct_branch_tools_fetch cong: option.case_cong sum.case_cong list.case_cong)
qed

lemma POST_tools_fetch_swallowed:
  "fst (POST (w\<lparr>tools_fetch := Inl e\<rparr>) c request) =
   fst (POST (w\<lparr>tools_fetch := Inr \<lparr>tools_ok = True, tools_json = Inr JNull\<rparr>\<rparr>) c request)"
proof -
  have "fst (getTools (Inl e) c) = fst (getTools (Inr \<lparr>tools_ok = True, tools_json = Inr JNull\<rparr>) c)"
    by (simp add: getTools_def getTools_try_def)
  from POST_try_tools_fetch [OF this, of w request] show ?thesis
    by (simp add: fst_POST)
qed

lemma POST_proxy_fetch_failure:
  assumes "prequest = Inr prq" and "PYTHON_API_URL pw = Some url" and "url \<noteq> []"
    and "api_fetch pw url prq = Inl e \<or> (api_fetch pw url prq = Inr up \<and> \<not> ok up)"
  shows "\<exists>e'. POST_proxy_try pw prequest = Inl e'"
  using assms by (auto simp: POST_proxy_try_def)

lemma POST_proxy_config_failure:
  assumes "prequest = Inl e \<or> PYTHON_API_URL pw = None \<or> PYTHON_API_URL pw = Some []"
  shows "\<exists>e'. POST_proxy_try pw prequest = Inl e'"
  using assms by (auto simp: POST_proxy_try_def split: sum.splits)

text \<open>
  C8, as stated, fails: the forwarding route gives the same response when its
  upstream is unreachable, when \<open>PYTHON_API_URL\<close> is not configured and when the
  request body does not parse; and the other route answers an unreachable backend
  exactly as it answers a request body that does not parse.
\<close>

theorem upstream_failure_undifferentiated_counterexample:
  "POST_proxy proxy_world_down example_proxy_request
     = POST_proxy proxy_world_unset example_proxy_request
   \<and> POST_proxy proxy_world_down example_proxy_request
     = POST_proxy proxy_world_ok (Inl (new_Error (js ''Unexpected end of JSON input'')))
   \<and> POST_proxy proxy_world_down example_proxy_request
     = \<lparr>status = 500, headers = [(js ''content-type'', js ''application/json'')],
        body = Json (JObject [(js ''error'', JString (js ''Internal Server Error''))])\<rparr>
   \<and> fst (POST world_backend_down JNull example_request)
     = fst (POST world_two_calls JNull (Inl (new_Error (js ''Unexpected end of JSON input''))))
   \<and> fst (POST world_backend_down JNull example_request)
     = Inr \<lparr>status = 500, headers = [(js ''content-type'', js ''text/plain;charset=UTF-8'')],
            body = Text (js ''An error occurred'')\<rparr>"
proof -
  have p: "POST_proxy proxy_world_down example_proxy_request
     = \<lparr>status = 500, headers = [(js ''content-type'', js ''application/json'')],
        body = Json (JObject [(js ''error'', JString (js ''Internal Server Error''))])\<rparr>"
    by (simp add: POST_proxy_def POST_proxy_try_def proxy_world_down_def proxy_world_ok_def
        example_proxy_request_def js_nonempty)
  have q: "POST_proxy proxy_world_unset example_proxy_request
     = \<lparr>status = 500, headers = [(js ''content-type'', js ''application/json'')],
        body = Json (JObject [(js ''error'', JString (js ''Internal Server Error''))])\<rparr>"
    by (simp add: POST_proxy_def POST_proxy_try_def proxy_world_unset_def proxy_world_ok_def
        example_proxy_request_def)
  have r: "POST_proxy proxy_world_ok (Inl (new_Error (js ''Unexpected end of JSON input'')))
     = \<lparr>status = 500, headers = [(js ''content-type'', js ''application/json'')],
        body = Json (JObject [(js ''error'', JString (js ''Internal Server Error''))])\<rparr>"
    by (simp add: POST_proxy_def POST_proxy_try_def)
  have b: "fst (POST world_backend_down JNull example_request)
     = Inr \<lparr>status = 500, headers = [(js ''content-type'', js ''text/plain;charset=UTF-8'')],
            body = Text (js ''An error occurred'')\<rparr>"
    by (simp add: POST_def POST_try_def tool_branch_def world_two_calls_def
        world_backend_down_def example_request_def example_messages_def getTools_down
        requested_two_calls POST_catch_other new_TypeError_def)
  have j: "fst (POST world_two_calls JNull (Inl (new_Error (js ''Unexpected end of JSON input''))))
     = Inr \<lparr>status = 500, headers = [(js ''content-type'', js ''text/plain;charset=UTF-8'')],
            body = Text (js ''An error occurred'')\<rparr>"
    by (simp add: POST_def POST_try_def POST_catch_other new_Error_def)
  from p q r b j show ?thesis by simp
qed

text \<open>
  C8, amended. The forwarding route answers every failure before streaming, an
  unreachable or failing upstream as well as a missing \<open>PYTHON_API_URL\<close> or an
  unreadable request, with the same response: status 500 and the JSON body
  \<open>{ error: 'Internal Server Error' }\<close>. In the other route a failed fetch of the
  tool list is not surfaced: the outcome is the one the route has when the
  endpoint returns \<open>null\<close>. A failed model call or backend call is handed to the
  \<open>catch\<close> block, which answers an error that is not an OpenAI \<open>APIError\<close> with
  \<open>An error occurred\<close> under status 500, and an \<open>APIError\<close> whose status lies in 200
  to 599 and is none of 204, 205 and 304 with its message under that status.
\<close>

theorem upstream_failures_surface_generically:
  "(prequest = Inr prq \<and> PYTHON_API_URL pw = Some url \<and> url \<noteq> []
      \<and> (api_fetch pw url prq = Inl e \<or> (api_fetch pw url prq = Inr up \<and> \<not> ok up)) \<longrightarrow>
        POST_proxy pw prequest =
          \<lparr>status = 500, headers = [(js ''content-type'', js ''application/json'')],
           body = Json (JObject [(js ''error'', JString (js ''Internal Server Error''))])\<rparr>)
   \<and> (prequest = Inl e \<or> PYTHON_API_URL pw = None \<or> PYTHON_API_URL pw = Some [] \<longrightarrow>
        POST_proxy pw prequest =
          \<lparr>status = 500, headers = [(js ''content-type'', js ''application/json'')],
           body = Json (JObject [(js ''error'', JString (js ''Internal Server Error''))])\<rparr>)
   \<and> fst (POST (w\<lparr>tools_fetch := Inl e\<rparr>) c request) =
       fst (POST (w\<lparr>tools_fetch := Inr \<lparr>tools_ok = True, tools_json = Inr JNull\<rparr>\<rparr>) c request)
   \<and> (request = Inr rq \<and> req_messages rq = Some ms
      \<and> completions_create w (tool_choice_request w (fst (getTools (tools_fetch w) c)) ms) = Inl e
      \<longrightarrow> fst (POST w c request) = POST_catch e)
   \<and> (request = Inr rq \<and> req_messages rq = Some ms \<and> ms \<noteq> []
      \<and> completions_create w (tool_choice_request w (fst (getTools (tools_fetch w) c)) ms)
          = Inr (ch # chs)
      \<and> requested_tool_calls ch = Some calls
      \<and> backend_chat w (backend_body rq ms) = Inl e
      \<longrightarrow> fst (POST w c request) = POST_catch e)
   \<and> (kind e = TypeError \<or> kind e = OtherError \<longrightarrow>
        POST_catch e =
          Inr \<lparr>status = 500, headers = [(js ''content-type'', js ''text/plain;charset=UTF-8'')],
               body = Text (js ''An error occurred'')\<rparr>)
   \<and> (kind e = APIError (Some n) \<and> 200 \<le> n \<and> n \<le> 599 \<and> n \<notin> {204, 205, 304} \<longrightarrow>
        POST_catch e =
          Inr \<lparr>status = n, headers = [(js ''content-type'', js ''text/plain;charset=UTF-8'')],
               body = Text (message e)\<rparr>)"
proof -
  let ?ise = "\<lparr>status = 500, headers = [(js ''content-type'', js ''application/json'')],
           body = Json (JObject [(js ''error'', JString (js ''Internal Server Error''))])\<rparr>"
  have 1: "prequest = Inr prq \<and> PYTHON_API_URL pw = Some url \<and> url \<noteq> []
      \<and> (api_fetch pw url prq = Inl e \<or> (api_fetch pw url prq = Inr up \<and> \<not> ok up)) \<longrightarrow>
        POST_proxy pw prequest = ?ise"
    using POST_proxy_fetch_failure [of prequest prq pw url e up]
    by (auto dest: POST_proxy_thrown)
  have 2: "prequest = Inl e \<or> PYTHON_API_URL pw = None \<or> PYTHON_API_URL pw = Some [] \<longrightarrow>
        POST_proxy pw prequest = ?ise"
    using POST_proxy_config_failure [of prequest e pw]
    by (auto dest: POST_proxy_thrown)
  have 3: "fst (POST (w\<lparr>tools_fetch := Inl e\<rparr>) c request) =
       fst (POST (w\<lparr>tools_fetch := Inr \<lparr>tools_ok = True, tools_json = Inr JNull\<rparr>\<rparr>) c request)"
    by (rule POST_tools_fetch_swallowed)
  have 4: "request = Inr rq \<and> req_messages rq = Some ms
      \<and> completions_create w (tool_choice_request w (fst (getTools (tools_fetch w) c)) ms) = Inl e
      \<longrightarrow> fst (POST w c request) = POST_catch e"
    using POST_try_model_failure [of request rq ms w c e] by (simp add: fst_POST_thrown)
  have 5: "request = Inr rq \<and> req_messages rq = Some ms \<and> ms \<noteq> []
      \<and> completions_create w (tool_choice_request w (fst (getTools (tools_fetch w) c)) ms)
          = Inr (ch # chs)
      \<and> requested_tool_calls ch = Some calls
      \<and> backend_chat w (backend_body rq ms) = Inl e
      \<longrightarrow> fst (POST w c request) = POST_catch e"
    using POST_try_backend_failure [of request rq ms w c ch chs calls e]
    by (simp add: fst_POST_thrown)
  have 6: "kind e = TypeError \<or> kind e = OtherError \<longrightarrow>
        POST_catch e =
          Inr \<lparr>status = 500, headers = [(js ''content-type'', js ''text/plain;charset=UTF-8'')],
               body = Text (js ''An error occurred'')\<rparr>"
    using POST_catch_other [of e] by blast
  have 7: "kind e = APIError (Some n) \<and> 200 \<le> n \<and> n \<le> 599 \<and> n \<notin> {204, 205, 304} \<longrightarrow>
        POST_catch e =
          Inr \<lparr>status = n, headers = [(js ''content-type'', js ''text/plain;charset=UTF-8'')],
               body = Text (message e)\<rparr>"
    using POST_catch_APIError [of e n] by blast
  from 1 2 3 4 5 6 7 show ?thesis by (intro conjI)
qed

theorem upstream_failures_surface_generically_witness:
  "POST_proxy proxy_world_down example_proxy_request =
     \<lparr>status = 500, headers = [(js ''content-type'', js ''application/json'')],
      body = Json (JObject [(js ''error'', JString (js ''Internal Server Error''))])\<rparr>
   \<and> POST_proxy proxy_world_503 example_proxy_request =
     \<lparr>status = 500, headers = [(js ''content-type'', js ''application/json'')],
      body = Json (JObject [(js ''error'', JString (js ''Internal Server Error''))])\<rparr>
   \<and> POST_proxy proxy_world_unset example_proxy_request =
     \<lparr>status = 500, headers = [(js ''content-type'', js ''application/json'')],
      body = Json (JObject [(js ''error'', JString (js ''Internal Server Error''))])\<rparr>
   \<and> POST_proxy proxy_world_ok (Inl (new_Error (js ''Unexpected end of JSON input''))) =
     \<lparr>status = 500, headers = [(js ''content-type'', js ''application/json'')],
      body = Json (JObject [(js ''error'', JString (js ''Internal Server Error''))])\<rparr>
   \<and> fst (POST world_model_429 JNull example_request) =
     Inr \<lparr>status = 429, headers = [(js ''content-type'', js ''text/plain;charset=UTF-8'')],
          body = Text (js ''429 Rate limit reached'')\<rparr>
   \<and> fst (POST world_backend_down JNull example_request) =
     Inr \<lparr>status = 500, headers = [(js ''content-type'', js ''text/plain;charset=UTF-8'')],
          body = Text (js ''An error occurred'')\<rparr>"
proof -
  note T = upstream_failures_surface_generically
  let ?prq = "\<lparr>pr_messages = Some (JArray []), pr_content = Some (JString (js ''how many rows?''))\<rparr>"
  let ?url = "js ''http://127.0.0.1:8000/api/chat''"
  let ?rq = "\<lparr>req_messages = Some example_messages, req_filePath = Some (js ''/tmp/data.xlsx'')\<rparr>"
  let ?ch = "\<lparr>choice_message = Some \<lparr>message_content = None, tool_calls = Some two_calls\<rparr>\<rparr>"
  let ?down = "new_TypeError (js ''fetch failed'')"
  have 1: "POST_proxy proxy_world_down example_proxy_request =
     \<lparr>status = 500, headers = [(js ''content-type'', js ''application/json'')],
      body = Json (JObject [(js ''error'', JString (js ''Internal Server Error''))])\<rparr>"
    using T [where prequest = example_proxy_request and pw = proxy_world_down and prq = ?prq
        and url = ?url and e = ?down]
    by (simp add: example_proxy_request_def proxy_world_down_def proxy_world_ok_def js_nonempty)
  have 2: "POST_proxy proxy_world_503 example_proxy_request =
     \<lparr>status = 500, headers = [(js ''content-type'', js ''application/json'')],
      body = Json (JObject [(js ''error'', JString (js ''Internal Server Error''))])\<rparr>"
    using T [where prequest = example_proxy_request and pw = proxy_world_503 and prq = ?prq
        and url = ?url and up = "\<lparr>up_status = 503, up_body = Some [Done]\<rparr>"]
    by (simp add: example_proxy_request_def proxy_world_503_def proxy_world_ok_def js_nonempty
        ok_def)
  have 3: "POST_proxy proxy_world_unset example_proxy_request =
     \<lparr>status = 500, headers = [(js ''content-type'', js ''application/json'')],
      body = Json (JObject [(js ''error'', JString (js ''Internal Server Error''))])\<rparr>"
    using T [where prequest = example_proxy_request and pw = proxy_world_unset]
    by (simp add: proxy_world_unset_def proxy_world_ok_def)
  have "fst (POST world_model_429 JNull example_request) = POST_catch rate_limit_error"
    using T [where request = example_request and w = world_model_429 and c = JNull and rq = ?rq
        and ms = example_messages and e = rate_limit_error]
    by (simp add: example_request_def world_two_calls_def world_model_429_def)
  then have 4: "fst (POST world_model_429 JNull example_request) =
     Inr \<lparr>status = 429, headers = [(js ''content-type'', js ''text/plain;charset=UTF-8'')],
          body = Text (js ''429 Rate limit reached'')\<rparr>"
    using T [where e = rate_limit_error and n = 429]
    by (simp add: rate_limit_error_def)
  have "fst (POST world_backend_down JNull example_request) = POST_catch ?down"
    using requested_two_calls
      T [where request = example_request and w = world_backend_down and c = JNull and rq = ?rq
          and ms = example_messages and ch = ?ch and chs = "[]" and calls = two_calls
          and e = ?down,
        THEN conjunct2, THEN conjunct2, THEN conjunct2, THEN conjunct2, THEN conjunct1]
    by (simp add: example_request_def example_messages_def world_two_calls_def
        world_backend_down_def)
  then have 5: "fst (POST world_backend_down JNull example_request) =
     Inr \<lparr>status = 500, headers = [(js ''content-type'', js ''text/plain;charset=UTF-8'')],
          body = Text (js ''An error occurred'')\<rparr>"
    using T [where e = ?down] by (simp add: new_TypeError_def)
  have 6: "POST_proxy proxy_world_ok (Inl (new_Error (js ''Unexpected end of JSON input''))) =
     \<lparr>status = 500, headers = [(js ''content-type'', js ''application/json'')],
      body = Json (JObject [(js ''error'', JString (js ''Internal Server Error''))])\<rparr>"
    using T [where prequest = "Inl (new_Error (js ''Unexpected end of JSON input''))"
        and pw = proxy_world_ok and e = "new_Error (js ''Unexpected end of JSON input'')",
        THEN conjunct2, THEN conjunct1]
    by simp
  from 1 2 3 6 4 5 show ?thesis by (intro conjI)
qed

section \<open>Properties of the cached tool list\<close>

text \<open>
  C5, as stated, fails: the module starts with \<open>cachedTools = null\<close>; a call made
  while the tool endpoint is down resolves to \<open>null\<close> and leaves the cache
  \<open>null\<close>; the next call fetches again and now stores and returns the list. The
  value the route passes to the model therefore differs between two turns of one
  process.
\<close>

theorem getTools_fixed_value_counterexample:
  "getTools (Inl (new_TypeError (js ''fetch failed''))) JNull = (JNull, JNull)
   \<and> getTools (Inr \<lparr>tools_ok = True, tools_json = Inr (JArray [])\<rparr>)
        (snd (getTools (Inl (new_TypeError (js ''fetch failed''))) JNull))
       = (JArray [], JArray [])
   \<and> fst (getTools (Inl (new_TypeError (js ''fetch failed''))) JNull)
       \<noteq> fst (getTools (Inr \<lparr>tools_ok = True, tools_json = Inr (JArray [])\<rparr>) JNull)"
  by (simp add: getTools_def getTools_try_def)

text \<open>
  C5, amended. The tool list is a module-level cache, \<open>null\<close> at first and filled
  lazily: while the cache is truthy \<open>getTools\<close> returns it unchanged, whatever the
  endpoint would answer; while it is falsy each call fetches, storing and returning
  the parsed list when the fetch succeeds, and returning \<open>null\<close> with the cache
  unchanged when the fetch rejects, the status is not OK or the body does not
  parse.
\<close>

theorem getTools_lazy_cache:
  "(truthy c \<longrightarrow> getTools f c = (c, c))
   \<and> (\<not> truthy c \<longrightarrow>
        getTools (Inr \<lparr>tools_ok = True, tools_json = Inr v\<rparr>) c = (v, v)
        \<and> getTools (Inl e) c = (JNull, c)
        \<and> getTools (Inr \<lparr>tools_ok = False, tools_json = j\<rparr>) c = (JNull, c)
        \<and> getTools (Inr \<lparr>tools_ok = True, tools_json = Inl e\<rparr>) c = (JNull, c))"
  by (simp add: getTools_def getTools_try_def)

theorem getTools_lazy_cache_witness:
  "truthy (JArray [])
   \<and> getTools (Inl (new_Error [])) (JArray []) = (JArray [], JArray [])
   \<and> truthy JNull = False
   \<and> getTools (Inr \<lparr>tools_ok = True, tools_json = Inr (JArray [])\<rparr>) JNull
       = (JArray [], JArray [])
   \<and> getTools (Inl (new_Error [])) JNull = (JNull, JNull)
   \<and> getTools (Inr \<lparr>tools_ok = False, tools_json = Inr (JArray [])\<rparr>) JNull = (JNull, JNull)
   \<and> getTools (Inr \<lparr>tools_ok = True, tools_json = Inl (new_Error [])\<rparr>) JNull = (JNull, JNull)"
  using getTools_lazy_cache [where c = "JArray []" and f = "Inl (new_Error [])"]
    getTools_lazy_cache [where c = JNull and v = "JArray []" and e = "new_Error []"
      and j = "Inr (JArray [])"]
  by simp

section \<open>Properties of the \<open>excelAnalyzer\<close> handler\<close>

text \<open>
  C9. The handler always returns an object and never throws. When the sheet
  parses to at least one row, \<open>summary\<close> returns the number of rows, the keys of
  the first row and the first rows, five at most. When it parses to no row,
  \<open>summary\<close> returns an object with an \<open>error\<close> field (the message of the
  \<open>TypeError\<close> of \<open>Object.keys(undefined)\<close>), not a row count of 0. An operation
  other than \<open>summary\<close> and \<open>analyze\<close> returns an object with an \<open>error\<close> field.
\<close>

theorem excelAnalyzer_handler_returns:
  "(\<exists>r. excelAnalyzer_handler x a = Inr r)
   \<and> (read_data x (filePath a) = Inr data \<and> operation a = js ''summary'' \<longrightarrow>
        (data \<noteq> [] \<longrightarrow>
           excelAnalyzer_handler x a
             = Inr (Summary (length data) (map fst (hd data)) (take 5 data))
           \<and> length (take 5 data) \<le> 5)
        \<and> (data = [] \<longrightarrow>
           excelAnalyzer_handler x a =
             Inr (ErrorResult (js ''Cannot convert undefined or null to object''))))
   \<and> (operation a \<noteq> js ''summary'' \<and> operation a \<noteq> js ''analyze'' \<longrightarrow>
        (\<exists>m. excelAnalyzer_handler x a = Inr (ErrorResult m)))"
proof -
  have 1: "\<exists>r. excelAnalyzer_handler x a = Inr r"
    by (simp add: excelAnalyzer_handler_def split: sum.splits)
  have 2: "excelAnalyzer_handler x a = Inr (Summary (length data) (map fst (hd data)) (take 5 data))"
    if "read_data x (filePath a) = Inr data" "operation a = js ''summary''" "data \<noteq> []"
    using that by (cases data) (simp_all add: excelAnalyzer_handler_def excelAnalyzer_try_def)
  have 3: "excelAnalyzer_handler x a =
             Inr (ErrorResult (js ''Cannot convert undefined or null to object''))"
    if "read_data x (filePath a) = Inr data" "operation a = js ''summary''" "data = []"
    using that by (simp add: excelAnalyzer_handler_def excelAnalyzer_try_def new_TypeError_def)
  have 4: "\<exists>m. excelAnalyzer_handler x a = Inr (ErrorResult m)"
    if "operation a \<noteq> js ''summary''" "operation a \<noteq> js ''analyze''"
    using that by (simp add: excelAnalyzer_handler_def excelAnalyzer_try_def split: sum.splits)
  from 1 2 3 4 show ?thesis by simp
qed

lemma read_data_two_rows: "read_data xlsx_two_rows file = Inr two_rows"
  by (simp add: read_data_def xlsx_two_rows_def)

lemma read_data_no_rows: "read_data xlsx_no_rows file = Inr []"
  by (simp add: read_data_def xlsx_two_rows_def xlsx_no_rows_def)

theorem excelAnalyzer_handler_returns_witness:
  "read_data xlsx_two_rows (js ''data.xlsx'') = Inr two_rows
   \<and> excelAnalyzer_handler xlsx_two_rows (example_args (js ''summary''))
       = Inr (Summary 2 [js ''id'', js ''age''] two_rows)
   \<and> excelAnalyzer_handler xlsx_no_rows (example_args (js ''summary''))
       = Inr (ErrorResult (js ''Cannot convert undefined or null to object''))
   \<and> (\<exists>m. excelAnalyzer_handler xlsx_two_rows (example_args (js ''delete''))
             = Inr (ErrorResult m))"
proof -
  note T = excelAnalyzer_handler_returns
  have 1: "excelAnalyzer_handler xlsx_two_rows (example_args (js ''summary''))
       = Inr (Summary 2 [js ''id'', js ''age''] two_rows)"
    using T [where x = xlsx_two_rows and a = "example_args (js ''summary'')" and data = two_rows]
    by (simp add: read_data_two_rows example_args_def) (simp add: two_rows_def)
  have 2: "excelAnalyzer_handler xlsx_no_rows (example_args (js ''summary''))
       = Inr (ErrorResult (js ''Cannot convert undefined or null to object''))"
    using T [where x = xlsx_no_rows and a = "example_args (js ''summary'')" and data = "[]"]
    by (simp add: read_data_no_rows example_args_def)
  have 3: "\<exists>m. excelAnalyzer_handler xlsx_two_rows (example_args (js ''delete''))
             = Inr (ErrorResult m)"
    using T [where x = xlsx_two_rows and a = "example_args (js ''delete'')"]
    by (simp add: example_args_def js_def)
  from read_data_two_rows 1 2 3 show ?thesis by (intro conjI)
qed

section \<open>Properties of \<open>handleSubmit\<close>\<close>

lemma read_loop_text: "fst (read_loop dec rs full) = full @ concat (map dec (produced rs))"
proof (induction rs arbitrary: full)
  case Nil
  show ?case by simp
next
  case (Cons r rs)
  then show ?case by (cases r) simp_all
qed

lemma read_loop_done: "snd (read_loop dec rs full) = LoopDone \<longleftrightarrow> ending rs = Closed"
proof (induction rs arbitrary: full)
  case Nil
  show ?case by simp
next
  case (Cons r rs)
  then show ?case by (cases r) simp_all
qed

lemma messages_after_loop:
  assumes "trim (input s) \<noteq> []"
  shows "messages (handleSubmit w uf now1 now2 s) =
           messages s @ [userMessage now1 s] @
           (case submit_try w (requestBody w uf now1 s) of
              (fullResponse, LoopDone) \<Rightarrow> [assistantMessage now2 fullResponse]
            | _ \<Rightarrow> [])"
proof (cases "submit_try w (requestBody w uf now1 s)")
  case (Pair t e)
  then show ?thesis using assms
    by (cases e) (simp_all add: handleSubmit_def Let_def finally_clause_def)
qed

lemma submit_try_done:
  "submit_try w b =
     (case fetch_chat w b of
        Inl e \<Rightarrow> ([], LoopThrew e)
      | Inr r \<Rightarrow>
          if \<not> ok r then ([], LoopThrew (new_Error [0x4F3A, 0x670D, 0x5668, 0x97FF, 0x61C9, 0x932F, 0x8AA4]))
          else (case up_body r of None \<Rightarrow> ([], LoopDone)
                | Some rs \<Rightarrow> (concat (map (decode w) (produced rs)), snd (read_loop (decode w) rs []))))"
proof -
  have "read_loop (decode w) rs [] = (concat (map (decode w) (produced rs)), snd (read_loop (decode w) rs []))" for rs
    using read_loop_text [of "decode w" rs "[]"] by (cases "read_loop (decode w) rs []") simp
  then show ?thesis
    by (simp add: submit_try_def split: sum.splits option.splits)
qed

lemma appended_after_loop:
  "(case submit_try w b of
      (fullResponse, LoopDone) \<Rightarrow> [assistantMessage now2 fullResponse]
    | _ \<Rightarrow> []) =
   (case fetch_chat w b of
      Inl e \<Rightarrow> []
    | Inr r \<Rightarrow>
        if \<not> ok r then []
        else (case up_body r of
                None \<Rightarrow> [assistantMessage now2 []]
              | Some rs \<Rightarrow>
                  if ending rs = Closed
                  then [assistantMessage now2 (concat (map (decode w) (produced rs)))]
                  else []))"
proof (cases "fetch_chat w b")
  case (Inl e)
  then show ?thesis by (simp add: submit_try_done)
next
  case (Inr r)
  show ?thesis
  proof (cases "up_body r")
    case None
    with Inr show ?thesis by (simp add: submit_try_done)
  next
    case (Some rs)
    have "snd (read_loop (decode w) rs []) = LoopDone \<longleftrightarrow> ending rs = Closed"
      by (rule read_loop_done)
    with Inr Some show ?thesis
      by (cases "snd (read_loop (decode w) rs [])") (simp_all add: submit_try_done)
  qed
qed

lemma trim_hi: "trim (js ''hi'') = js ''hi''"
  by (simp add: trim_def js_def is_white_space_def)

text \<open>
  C6, as stated, fails: after one earlier exchange the user submits \<open>hi\<close> and a read
  of the response rejects after the first chunk. The turn has failed in
  mid-stream, and the message sequence is not what it was before the turn: the
  user's message has been appended to it, before the request was sent.
\<close>

theorem failed_turn_changes_messages_counterexample:
  "messages example_state_history = example_history
   \<and> messages (handleSubmit ui_world_broken None (js ''1'') (js ''2'') example_state_history)
       = example_history
         @ [\<lparr>ui_role = js ''user'', ui_content = js ''hi'', ui_id = js ''1'', isCollapsed = None\<rparr>]
   \<and> messages (handleSubmit ui_world_broken None (js ''1'') (js ''2'') example_state_history)
       \<noteq> messages example_state_history
   \<and> error (handleSubmit ui_world_broken None (js ''1'') (js ''2'') example_state_history)
       = Some (js ''network error'')"
proof -
  have s: "submit_try ui_world_broken b
             = (decode_ascii [0x34], LoopThrew (new_TypeError (js ''network error'')))" for b
    by (simp add: submit_try_def ui_world_broken_def ok_def)
  have m: "message (new_TypeError (js ''network error'')) \<noteq> []"
    by (simp add: new_TypeError_def js_nonempty)
  have t: "trim (input example_state_history) \<noteq> []"
    by (simp add: example_state_history_def example_state_def trim_hi js_nonempty)
  have 1: "messages (handleSubmit ui_world_broken None (js ''1'') (js ''2'') example_state_history)
       = example_history
         @ [\<lparr>ui_role = js ''user'', ui_content = js ''hi'', ui_id = js ''1'', isCollapsed = None\<rparr>]"
    using t by (simp add: handleSubmit_def s finally_clause_def userMessage_def)
      (simp add: example_state_history_def example_state_def)
  have 2: "error (handleSubmit ui_world_broken None (js ''1'') (js ''2'') example_state_history)
       = Some (js ''network error'')"
    using t m by (simp add: handleSubmit_def s finally_clause_def) (simp add: new_TypeError_def)
  have 0: "messages example_state_history = example_history"
    by (simp add: example_state_history_def)
  from 0 1 2 show ?thesis by simp
qed

text \<open>
  C6, amended. A submission with a blank input changes nothing. A submission with
  a non-blank input appends the user's message before the request is sent, and
  then the assistant's message exactly once, its content the whole decoded text
  of the response, exactly when the response is OK and its stream has been read to
  \<open>done\<close> (or the response has no body to read, the content then empty). When the
  fetch rejects, the status is not OK, a read rejects in mid-stream, or the stream
  never ends, no assistant message is appended, whatever text had arrived: the
  messages are the earlier ones followed by the user's message. In every case the
  earlier messages are an unchanged prefix.
\<close>

theorem handleSubmit_appends_assistant_once:
  "(trim (input s) \<noteq> [] \<longrightarrow>
      messages (handleSubmit w uf now1 now2 s) =
        messages s
        @ [\<lparr>ui_role = js ''user'', ui_content = input s, ui_id = now1, isCollapsed = None\<rparr>]
        @ (case fetch_chat w (requestBody w uf now1 s) of
             Inl e \<Rightarrow> []
           | Inr r \<Rightarrow>
               if \<not> ok r then []
               else (case up_body r of
                       None \<Rightarrow>
                         [\<lparr>ui_role = js ''assistant'', ui_content = [], ui_id = now2,
                           isCollapsed = Some False\<rparr>]
                     | Some rs \<Rightarrow>
                         if ending rs = Closed
                         then [\<lparr>ui_role = js ''assistant'',
                                 ui_content = concat (map (decode w) (produced rs)),
                                 ui_id = now2, isCollapsed = Some False\<rparr>]
                         else [])))
   \<and> (trim (input s) = [] \<longrightarrow> handleSubmit w uf now1 now2 s = s)
   \<and> take (length (messages s)) (messages (handleSubmit w uf now1 now2 s)) = messages s"
proof -
  have 1: "messages (handleSubmit w uf now1 now2 s) =
        messages s
        @ [\<lparr>ui_role = js ''user'', ui_content = input s, ui_id = now1, isCollapsed = None\<rparr>]
        @ (case fetch_chat w (requestBody w uf now1 s) of
             Inl e \<Rightarrow> []
           | Inr r \<Rightarrow>
               if \<not> ok r then []
               else (case up_body r of
                       None \<Rightarrow>
                         [\<lparr>ui_role = js ''assistant'', ui_content = [], ui_id = now2,
                           isCollapsed = Some False\<rparr>]
                     | Some rs \<Rightarrow>
                         if ending rs = Closed
                         then [\<lparr>ui_role = js ''assistant'',
                                 ui_content = concat (map (decode w) (produced rs)),
                                 ui_id = now2, isCollapsed = Some False\<rparr>]
                         else []))"
    if "trim (input s) \<noteq> []"
    using messages_after_loop [OF that, of w uf now1 now2]
    by (simp add: appended_after_loop userMessage_def assistantMessage_def
        cong: sum.case_cong option.case_cong if_cong)
  have 2: "handleSubmit w uf now1 now2 s = s" if "trim (input s) = []"
    using that by (simp add: handleSubmit_def)
  have 3: "take (length (messages s)) (messages (handleSubmit w uf now1 now2 s)) = messages s"
  proof (cases "trim (input s) = []")
    case True
    then show ?thesis by (simp add: 2)
  next
    case False
    then show ?thesis by (simp add: messages_after_loop)
  qed
  from 1 2 3 show ?thesis by simp
qed

theorem handleSubmit_appends_assistant_once_witness:
  "trim (input example_state_history) \<noteq> []
   \<and> messages (handleSubmit ui_world_ok None (js ''1'') (js ''2'') example_state_history)
       = example_history
         @ [\<lparr>ui_role = js ''user'', ui_content = js ''hi'', ui_id = js ''1'', isCollapsed = None\<rparr>,
            \<lparr>ui_role = js ''assistant'', ui_content = js ''42'', ui_id = js ''2'',
             isCollapsed = Some False\<rparr>]
   \<and> messages (handleSubmit ui_world_broken None (js ''1'') (js ''2'') example_state_history)
       = example_history
         @ [\<lparr>ui_role = js ''user'', ui_content = js ''hi'', ui_id = js ''1'', isCollapsed = None\<rparr>]
   \<and> trim (input (example_state\<lparr>input := js ''  ''\<rparr>)) = []
   \<and> handleSubmit ui_world_ok None (js ''1'') (js ''2'') (example_state\<lparr>input := js ''  ''\<rparr>)
       = example_state\<lparr>input := js ''  ''\<rparr>"
proof -
  note T = handleSubmit_appends_assistant_once
  have t: "trim (input example_state_history) \<noteq> []"
    by (simp add: example_state_history_def example_state_def trim_hi js_nonempty)
  have d: "concat (map decode_ascii [[0x34], [0x32]]) = js ''42''"
    by (simp add: decode_ascii_def js_def)
  have 1: "messages (handleSubmit ui_world_ok None (js ''1'') (js ''2'') example_state_history)
       = example_history
         @ [\<lparr>ui_role = js ''user'', ui_content = js ''hi'', ui_id = js ''1'', isCollapsed = None\<rparr>,
            \<lparr>ui_role = js ''assistant'', ui_content = js ''42'', ui_id = js ''2'',
             isCollapsed = Some False\<rparr>]"
    using t d T [where s = example_state_history and w = ui_world_ok and uf = None
        and ?now1.0 = "js ''1''" and ?now2.0 = "js ''2''", THEN conjunct1]
    by (simp add: ui_world_ok_def ok_def) (simp add: example_state_history_def example_state_def)
  have 2: "messages (handleSubmit ui_world_broken None (js ''1'') (js ''2'') example_state_history)
       = example_history
         @ [\<lparr>ui_role = js ''user'', ui_content = js ''hi'', ui_id = js ''1'', isCollapsed = None\<rparr>]"
    using t T [where s = example_state_history and w = ui_world_broken and uf = None
        and ?now1.0 = "js ''1''" and ?now2.0 = "js ''2''", THEN conjunct1]
    by (simp add: ui_world_broken_def ok_def) (simp add: example_state_history_def example_state_def)
  have b: "trim (input (example_state\<lparr>input := js ''  ''\<rparr>)) = []"
    by (simp add: trim_def js_def is_white_space_def)
  have 3: "handleSubmit ui_world_ok None (js ''1'') (js ''2'') (example_state\<lparr>input := js ''  ''\<rparr>)
       = example_state\<lparr>input := js ''  ''\<rparr>"
    using b T [where s = "example_state\<lparr>input := js ''  ''\<rparr>" and w = ui_world_ok and uf = None
        and ?now1.0 = "js ''1''" and ?now2.0 = "js ''2''", THEN conjunct2, THEN conjunct1]
    by simp
  from t 1 2 b 3 show ?thesis by (intro conjI)
qed

section \<open>Properties of the specified validator\<close>

lemma denied_call_found:
  "f \<in> set (called_names e) \<Longrightarrow> f \<in> set (deny_list al) \<Longrightarrow>
   DeniedCall f \<in> set (expr_violations al e)"
proof (induction al e rule: expr_violations.induct)
  case (4 al g args)
  then show ?case by (auto split: if_splits)
qed auto

lemma dunder_attribute_found:
  "a \<in> set (accessed_attributes e) \<Longrightarrow> is_dunder a \<Longrightarrow>
   DunderAttribute a \<in> set (expr_violations al e)"
proof (induction al e rule: expr_violations.induct)
qed auto

lemma expr_violation_in_stmt:
  "e \<in> set (stmt_exprs s) \<Longrightarrow> r \<in> set (expr_violations al e) \<Longrightarrow>
   r \<in> set (stmt_violations al s)"
  by (induction al s rule: stmt_violations.induct) auto

lemma validate_rejects_violation:
  assumes "parse code_text = Some prog" and "s \<in> set prog" and "e \<in> set (stmt_exprs s)"
    and "r \<in> set (expr_violations al e)"
  shows "\<exists>r'. validate parse al code_text = rejected r'"
proof -
  from assms have "r \<in> set (concat (map (stmt_violations al) prog))"
    by (auto intro: expr_violation_in_stmt)
  moreover have "xs \<noteq> []" if "r \<in> set xs" for xs :: "reason list"
    using that by auto
  ultimately have "concat (map (stmt_violations al) prog) \<noteq> []" by blast
  with assms(1) show ?thesis
    by (cases "concat (map (stmt_violations al) prog)") (simp_all add: validate_def)
qed

lemma unparsable_rejected: "parse code_text = None \<Longrightarrow> validate parse al code_text = rejected SyntaxInvalid"
  by (simp add: validate_def)

text \<open>
  C1. A code text whose program contains a call to \<open>exec\<close>, \<open>eval\<close>, \<open>open\<close> or
  \<open>__import__\<close>, or an access to an attribute that begins and ends with a double
  underscore, is rejected by the validator, whatever the allowlist. When the
  generator produces such a text,
  the dataset-analysis handler never runs the executor, on this text or any other,
  and a non-empty such text gives a \<open>validation_rejected\<close> result.
\<close>

theorem denylisted_code_rejected_and_never_executed:
  assumes "parse code_text = Some prog"
    and "(\<exists>f \<in> set (program_calls prog). f \<in> {''exec'', ''eval'', ''open'', ''__import__''})
         \<or> (\<exists>a \<in> set (program_attributes prog). is_dunder a)"
  shows "(\<exists>r. validate parse al code_text = rejected r)
         \<and> (generate request dataset_schema = code_text \<longrightarrow>
               snd (analyze_dataset generate parse al run request dataset_schema) = []
               \<and> (code_text \<noteq> [] \<longrightarrow>
                    outcome (fst (analyze_dataset generate parse al run request dataset_schema))
                      = validation_rejected))"
proof -
  have rej: "\<exists>r. validate parse al code_text = rejected r"
    using assms(2)
  proof
    assume "\<exists>f \<in> set (program_calls prog). f \<in> {''exec'', ''eval'', ''open'', ''__import__''}"
    then obtain f s e where f: "f \<in> {''exec'', ''eval'', ''open'', ''__import__''}"
      and s: "s \<in> set prog" and e: "e \<in> set (stmt_exprs s)" and c: "f \<in> set (called_names e)"
      by (auto simp: program_calls_def)
    from f have "f \<in> set (deny_list al)" by (auto simp: deny_list_def)
    with c have "DeniedCall f \<in> set (expr_violations al e)" by (rule denied_call_found)
    with assms(1) s e show ?thesis by (rule validate_rejects_violation)
  next
    assume "\<exists>a \<in> set (program_attributes prog). is_dunder a"
    then obtain a s e where a: "is_dunder a"
      and s: "s \<in> set prog" and e: "e \<in> set (stmt_exprs s)"
      and c: "a \<in> set (accessed_attributes e)"
      by (auto simp: program_attributes_def)
    from c a have "DunderAttribute a \<in> set (expr_violations al e)"
      by (rule dunder_attribute_found)
    with assms(1) s e show ?thesis by (rule validate_rejects_violation)
  qed
  then obtain r where r: "validate parse al code_text = rejected r" ..
  have "snd (analyze_dataset generate parse al run request dataset_schema) = []"
    if "generate request dataset_schema = code_text"
    using that r by (simp add: analyze_dataset_def Let_def)
  moreover have "outcome (fst (analyze_dataset generate parse al run request dataset_schema))
                      = validation_rejected"
    if "generate request dataset_schema = code_text" "code_text \<noteq> []"
    using that r by (simp add: analyze_dataset_def Let_def rejected_result_def)
  ultimately show ?thesis using rej by simp
qed

theorem denylisted_code_rejected_and_never_executed_witness:
  "example_parse ''print(eval(df))''
     = Some [PyExpr (PyCall (PyName ''print'') [PyCall (PyName ''eval'') [PyName ''df'']])]
   \<and> ''eval'' \<in> set (program_calls
        [PyExpr (PyCall (PyName ''print'') [PyCall (PyName ''eval'') [PyName ''df'']])])
   \<and> (\<exists>r. validate example_parse example_allowlist ''print(eval(df))'' = rejected r)
   \<and> analyze_dataset (\<lambda>_ _. ''print(eval(df))'') example_parse example_allowlist example_run
        (js ''how many rows?'') () = (rejected_result, [])
   \<and> is_dunder ''__class__''
   \<and> (\<exists>r. validate example_parse example_allowlist ''n = df.__class__'' = rejected r)
   \<and> snd (analyze_dataset (\<lambda>_ _. ''n = df.__class__'') example_parse example_allowlist
        example_run (js ''how many rows?'') ()) = []"
proof -
  note T = denylisted_code_rejected_and_never_executed
  let ?p1 = "[PyExpr (PyCall (PyName ''print'') [PyCall (PyName ''eval'') [PyName ''df'']])]"
  let ?p2 = "[PyAssign ''n'' (PyAttribute (PyName ''df'') ''__class__'')]"
  have e1: "example_parse ''print(eval(df))'' = Some ?p1"
    by (simp add: example_parse_def)
  have e2: "example_parse ''n = df.__class__'' = Some ?p2"
    by (simp add: example_parse_def)
  have c1: "''eval'' \<in> set (program_calls ?p1)"
    by (simp add: program_calls_def)
  have d: "is_dunder ''__class__''"
    by (simp add: is_dunder_def)
  have c2: "''__class__'' \<in> set (program_attributes ?p2)"
    by (simp add: program_attributes_def)
  have h1: "(\<exists>f \<in> set (program_calls ?p1). f \<in> {''exec'', ''eval'', ''open'', ''__import__''})
         \<or> (\<exists>a \<in> set (program_attributes ?p1). is_dunder a)"
    using c1 by blast
  have h2: "(\<exists>f \<in> set (program_calls ?p2). f \<in> {''exec'', ''eval'', ''open'', ''__import__''})
         \<or> (\<exists>a \<in> set (program_attributes ?p2). is_dunder a)"
    using c2 d by blast
  note T1 = T [where parse = example_parse and code_text = "''print(eval(df))''" and prog = ?p1
      and al = example_allowlist and generate = "\<lambda>_ _. ''print(eval(df))''"
      and run = example_run and request = "js ''how many rows?''" and dataset_schema = "()",
      OF e1 h1]
  note T2 = T [where parse = example_parse and code_text = "''n = df.__class__''" and prog = ?p2
      and al = example_allowlist and generate = "\<lambda>_ _. ''n = df.__class__''"
      and run = example_run and request = "js ''how many rows?''" and dataset_schema = "()",
      OF e2 h2]
  have 1: "\<exists>r. validate example_parse example_allowlist ''print(eval(df))'' = rejected r"
    using T1 by simp
  then have 2: "analyze_dataset (\<lambda>_ _. ''print(eval(df))'') example_parse example_allowlist example_run
        (js ''how many rows?'') () = (rejected_result, [])"
    by (auto simp: analyze_dataset_def)
  have 3: "\<exists>r. validate example_parse example_allowlist ''n = df.__class__'' = rejected r"
    using T2 by simp
  have 4: "snd (analyze_dataset (\<lambda>_ _. ''n = df.__class__'') example_parse example_allowlist
        example_run (js ''how many rows?'') ()) = []"
    using T2 by simp
  from e1 c1 1 2 d 3 4 show ?thesis by (intro conjI)
qed

end
